theory Spec2Isabelle
  imports Main
begin

section \<open>Python strings\<close>

text \<open>
  A Python \<open>str\<close> is modelled as a \<^typ>\<open>string\<close>: a list of code points below 256
  (the Latin-1 range), one \<^typ>\<open>char\<close> per code point, so \<^const>\<open>length\<close> is
  Python's \<open>len\<close>. The character classes below are the ones CPython 3 uses on that
  range.
\<close>

definition py_isspace :: "char \<Rightarrow> bool" where
  \<comment> \<open>\<open>str.isspace\<close> on one character: the separators of \<open>str.strip()\<close> and \<open>str.split()\<close>\<close>
  "py_isspace c = (c \<in> set [CHR 0x09, CHR 0x0A, CHR 0x0B, CHR 0x0C, CHR 0x0D,
                              CHR 0x1C, CHR 0x1D, CHR 0x1E, CHR 0x1F, CHR 0x20,
                              CHR 0x85, CHR 0xA0])"

definition py_islinebreak :: "char \<Rightarrow> bool" where
  \<comment> \<open>the line boundaries of \<open>str.splitlines()\<close>\<close>
  "py_islinebreak c = (c \<in> set [CHR 0x0A, CHR 0x0B, CHR 0x0C, CHR 0x0D,
                                  CHR 0x1C, CHR 0x1D, CHR 0x1E, CHR 0x85])"

definition py_isdecimal :: "char \<Rightarrow> bool" where
  \<comment> \<open>the characters \<open>int()\<close> reads as a decimal digit\<close>
  "py_isdecimal c = (c \<in> set ''0123456789'')"

definition py_isdigit :: "char \<Rightarrow> bool" where
  \<comment> \<open>\<open>str.isdigit\<close> on one character: the decimal digits and the superscripts
      \<open>U+00B2\<close>, \<open>U+00B3\<close>, \<open>U+00B9\<close>\<close>
  "py_isdigit c = (py_isdecimal c \<or> c \<in> set [CHR 0xB2, CHR 0xB3, CHR 0xB9])"

definition str_isdigit :: "string \<Rightarrow> bool" where
  \<comment> \<open>\<open>s.isdigit()\<close>: at least one character, and all of them digits\<close>
  "str_isdigit s = (s \<noteq> [] \<and> list_all py_isdigit s)"

definition str_strip :: "string \<Rightarrow> string" where
  \<comment> \<open>\<open>s.strip()\<close>\<close>
  "str_strip s = rev (dropWhile py_isspace (rev (dropWhile py_isspace s)))"

fun str_split :: "string \<Rightarrow> string list" where
  \<comment> \<open>\<open>s.split()\<close>: the maximal runs of non-whitespace characters\<close>
  "str_split [] = []"
| "str_split (c # cs) =
     (if py_isspace c then str_split cs
      else if cs = [] \<or> py_isspace (hd cs) then [c] # str_split cs
      else (case str_split cs of [] \<Rightarrow> [[c]] | t # ts \<Rightarrow> (c # t) # ts))"

fun str_splitlines :: "string \<Rightarrow> string list" where
  \<comment> \<open>\<open>s.splitlines()\<close>: a carriage return followed by a line feed is one boundary, and
      a boundary at the very end opens no further line\<close>
  "str_splitlines [] = []"
| "str_splitlines (c # cs) =
     (if py_islinebreak c then
        (case cs of
           [] \<Rightarrow> [[]]
         | d # ds \<Rightarrow> if c = CHR 0x0D \<and> d = CHR 0x0A then [] # str_splitlines ds
                     else [] # str_splitlines cs)
      else (case str_splitlines cs of [] \<Rightarrow> [[c]] | l # ls \<Rightarrow> (c # l) # ls))"

fun str_join :: "string \<Rightarrow> string list \<Rightarrow> string" where
  \<comment> \<open>\<open>sep.join(xs)\<close>\<close>
  "str_join sep [] = []"
| "str_join sep [x] = x"
| "str_join sep (x # y # ys) = x @ sep @ str_join sep (y # ys)"

definition str_ljust :: "string \<Rightarrow> nat \<Rightarrow> char \<Rightarrow> string" where
  \<comment> \<open>\<open>s.ljust(width, fill)\<close>: a string that is already long enough is returned as it is\<close>
  "str_ljust s width fill = s @ replicate (width - length s) fill"

definition lower_table :: "(char \<times> char) list" where
  "lower_table =
     zip ''ABCDEFGHIJKLMNOPQRSTUVWXYZ'' ''abcdefghijklmnopqrstuvwxyz'' @
     zip [CHR 0xC0, CHR 0xC1, CHR 0xC2, CHR 0xC3, CHR 0xC4, CHR 0xC5, CHR 0xC6, CHR 0xC7,
          CHR 0xC8, CHR 0xC9, CHR 0xCA, CHR 0xCB, CHR 0xCC, CHR 0xCD, CHR 0xCE, CHR 0xCF,
          CHR 0xD0, CHR 0xD1, CHR 0xD2, CHR 0xD3, CHR 0xD4, CHR 0xD5, CHR 0xD6,
          CHR 0xD8, CHR 0xD9, CHR 0xDA, CHR 0xDB, CHR 0xDC, CHR 0xDD, CHR 0xDE]
         [CHR 0xE0, CHR 0xE1, CHR 0xE2, CHR 0xE3, CHR 0xE4, CHR 0xE5, CHR 0xE6, CHR 0xE7,
          CHR 0xE8, CHR 0xE9, CHR 0xEA, CHR 0xEB, CHR 0xEC, CHR 0xED, CHR 0xEE, CHR 0xEF,
          CHR 0xF0, CHR 0xF1, CHR 0xF2, CHR 0xF3, CHR 0xF4, CHR 0xF5, CHR 0xF6,
          CHR 0xF8, CHR 0xF9, CHR 0xFA, CHR 0xFB, CHR 0xFC, CHR 0xFD, CHR 0xFE]"

definition str_lower :: "string \<Rightarrow> string" where
  \<comment> \<open>\<open>s.lower()\<close>\<close>
  "str_lower s = map (\<lambda>c. case map_of lower_table c of None \<Rightarrow> c | Some l \<Rightarrow> l) s"

fun starts_with :: "string \<Rightarrow> string \<Rightarrow> bool" where
  \<comment> \<open>\<open>starts_with sub s\<close> is \<open>s.startswith(sub)\<close>\<close>
  "starts_with [] s = True"
| "starts_with (x # xs) [] = False"
| "starts_with (x # xs) (y # ys) = (x = y \<and> starts_with xs ys)"

fun str_in :: "string \<Rightarrow> string \<Rightarrow> bool" where
  \<comment> \<open>\<open>str_in sub s\<close> is Python's \<open>sub in s\<close>\<close>
  "str_in sub [] = (sub = [])"
| "str_in sub (c # cs) = (starts_with sub (c # cs) \<or> str_in sub cs)"

fun digit_val :: "char \<Rightarrow> int" where
  "digit_val c = (case map_of (zip ''0123456789'' [0, 1, 2, 3, 4, 5, 6, 7, 8, 9]) c of
                    None \<Rightarrow> 0 | Some d \<Rightarrow> d)"

fun int_digits :: "int \<Rightarrow> string \<Rightarrow> int option" where
  \<comment> \<open>the digits of an integer literal after the first one: an underscore is allowed
      only between two digits\<close>
  "int_digits acc [] = Some acc"
| "int_digits acc (c # cs) =
     (if py_isdecimal c then int_digits (10 * acc + digit_val c) cs
      else if c = CHR ''_'' then
        (case cs of
           [] \<Rightarrow> None
         | d # ds \<Rightarrow> if py_isdecimal d then int_digits (10 * acc + digit_val d) ds else None)
      else None)"

definition int_isspace :: "char \<Rightarrow> bool" where
  \<comment> \<open>the whitespace \<open>int()\<close> itself skips around the literal\<close>
  "int_isspace c = (c \<in> set [CHR 0x09, CHR 0x0A, CHR 0x0B, CHR 0x0C, CHR 0x0D, CHR 0x20,
                               CHR 0x85, CHR 0xA0])"

definition int_unsigned :: "string \<Rightarrow> int option" where
  "int_unsigned s =
     (case s of [] \<Rightarrow> None
      | c # cs \<Rightarrow> if py_isdecimal c then int_digits (digit_val c) cs else None)"

definition py_int :: "nat \<Rightarrow> string \<Rightarrow> int option" where
  \<comment> \<open>\<open>int(s)\<close> in base 10; \<open>None\<close> is \<open>ValueError\<close>. The first argument is the
      interpreter's limit on the number of digits of a literal
      (\<open>sys.get_int_max_str_digits()\<close>: 4300 by default from Python 3.11, and 0, no limit,
      before): a literal with more digits is a \<open>ValueError\<close>.\<close>
  "py_int max_digits s =
     (case rev (dropWhile int_isspace (rev (dropWhile int_isspace s))) of
        [] \<Rightarrow> None
      | c # cs \<Rightarrow>
          (let body = (if c = CHR ''+'' \<or> c = CHR ''-'' then cs else c # cs) in
           if 0 < max_digits \<and> max_digits < length (filter py_isdecimal body) then None
           else if c = CHR ''-'' then map_option uminus (int_unsigned body)
           else int_unsigned body))"

fun str_nat :: "nat \<Rightarrow> string" where
  \<comment> \<open>\<open>str(n)\<close> for a natural number: its decimal digits\<close>
  "str_nat n = (if n < 10 then [''0123456789'' ! n]
                else str_nat (n div 10) @ [''0123456789'' ! (n mod 10)])"

declare str_nat.simps [simp del]

definition py_str_int :: "int \<Rightarrow> string" where
  \<comment> \<open>\<open>str(n)\<close>\<close>
  "py_str_int n = (if n < 0 then ''-'' @ str_nat (nat (- n)) else str_nat (nat n))"

section \<open>Menu renderer\<close>

definition box_width :: "string list \<Rightarrow> string \<Rightarrow> nat" where
  \<comment> \<open>\<open>max([len(s) for s in lines] + [len(title)]) if (lines or title) else 0\<close>\<close>
  "box_width lines title =
     (if lines \<noteq> [] \<or> title \<noteq> [] then fold max (map length lines @ [length title]) 0 else 0)"

definition box_rows :: "string list \<Rightarrow> string \<Rightarrow> string list" where
  \<comment> \<open>the list \<open>out\<close> that \<open>box\<close> joins\<close>
  "box_rows lines title =
     (let width = box_width lines title;
          top = ''+'' @ replicate (width + 2) CHR ''-'' @ ''+'';
          top = (if title \<noteq> [] then ''+'' @ str_ljust ('' '' @ title) (width + 2) CHR ''-'' @ ''+''
                 else top)
      in [top] @ map (\<lambda>s. ''| '' @ str_ljust s width CHR '' '' @ '' |'') lines
         @ [''+'' @ replicate (width + 2) CHR ''-'' @ ''+''])"

definition box :: "string list \<Rightarrow> string \<Rightarrow> string" where
  "box lines title = str_join [CHR 0x0A] (box_rows lines title)"

section \<open>Device-list parser\<close>

definition parse_adb_devices :: "string \<Rightarrow> string list" where
  \<comment> \<open>\<open>android_workbench_ai.py\<close>\<close>
  "parse_adb_devices output =
     (let lines = map str_strip (filter (\<lambda>ln. str_strip ln \<noteq> []) (str_splitlines output))
      in concat (map (\<lambda>ln. let parts = str_split ln in
                            if length parts \<ge> 2 \<and> parts ! 1 = ''device'' then [parts ! 0] else [])
                     (drop 1 lines)))"

definition parse_adb_devices_v12 :: "string \<Rightarrow> string list" where
  \<comment> \<open>\<open>android-workbench-v1.2.py\<close>: \<open>continue\<close> on fewer than two tokens\<close>
  "parse_adb_devices_v12 output =
     (let lines = map str_strip (filter (\<lambda>ln. str_strip ln \<noteq> []) (str_splitlines output))
      in concat (map (\<lambda>ln. let parts = str_split ln in
                            if length parts < 2 then []
                            else (let serial = parts ! 0; state = parts ! 1 in
                                  if state = ''device'' then [serial] else []))
                     (drop 1 lines)))"

definition parse_adb_devices_v01 :: "string \<Rightarrow> string list" where
  \<comment> \<open>\<open>android_workbench.py\<close>: \<open>continue\<close> on no token, the empty state on one token\<close>
  "parse_adb_devices_v01 output =
     (let lines = map str_strip (filter (\<lambda>ln. str_strip ln \<noteq> []) (str_splitlines output))
      in concat (map (\<lambda>ln. let parts = str_split ln in
                            if parts = [] then []
                            else (let serial = parts ! 0;
                                      state = (if length parts > 1 then parts ! 1 else '''') in
                                  if state = ''device'' then [serial] else []))
                     (drop 1 lines)))"

definition ready_identifiers :: "string list \<Rightarrow> string list" where
  \<comment> \<open>The specification's reading of a device list, on the lines after the header: the
      first whitespace-separated token of each line whose second token is \<open>device\<close>, in
      the order of the lines.\<close>
  "ready_identifiers rest =
     map (\<lambda>ln. hd (str_split ln))
         (filter (\<lambda>ln. case str_split ln of a # b # more \<Rightarrow> b = ''device'' | _ \<Rightarrow> False) rest)"

definition ready_of_line :: "string \<Rightarrow> string list" where
  \<comment> \<open>what one line of the listing contributes\<close>
  "ready_of_line ln = (let parts = str_split ln in
                        if length parts \<ge> 2 \<and> parts ! 1 = ''device'' then [parts ! 0] else [])"

section \<open>Session context, operator and child processes\<close>

record Ctx =
  serial :: "string option"
  dry_run :: bool
  verbose :: bool

definition has_serial :: "Ctx \<Rightarrow> bool" where
  \<comment> \<open>the test \<open>if ctx.serial\<close>: \<open>None\<close> and the empty string are both false\<close>
  "has_serial ctx = (case serial ctx of None \<Rightarrow> False | Some s \<Rightarrow> s \<noteq> [])"

definition serial_text :: "Ctx \<Rightarrow> string" where
  \<comment> \<open>\<open>f"{ctx.serial}"\<close>\<close>
  "serial_text ctx = (case serial ctx of None \<Rightarrow> ''None'' | Some s \<Rightarrow> s)"

text \<open>
  A finished child process, as \<open>subprocess.run\<close> sees it: exit status, the two captured
  streams, and the time it took to exit, which decides whether a caller's time limit
  expires first.
\<close>

record completed =
  returncode :: int
  stdout :: string
  stderr :: string
  seconds :: nat

datatype error =
    CalledProcessError int "string list" string string
  | TimeoutExpired "string list"
  | EOFError
  | ValueError string

datatype event =
    Printed string
  | Asked string
  | Ran "string list"
  | Streamed "string list"
  | MadeDir string
  | Wrote string string

text \<open>
  What the program reads from outside: the external executables, the clock in the three
  formats the program asks for, the home directory, the two file-system queries of the
  install handler, the interpreter's digit limit for \<open>int()\<close>, and the regular-expression
  compiler (\<open>Inl\<close> carries the message of
  \<open>re.error\<close>, \<open>Inr\<close> the compiled pattern's \<open>search\<close> as a test on a line).
\<close>

record env =
  child :: "string list \<Rightarrow> completed"
  now_stamp :: string
  now_clock :: string
  now_iso :: string
  home :: string
  expanduser :: "string \<Rightarrow> string"
  path_exists :: "string \<Rightarrow> bool"
  int_max_str_digits :: nat
  re_compile :: "string \<Rightarrow> string + (string \<Rightarrow> bool)"

text \<open>
  The operator's terminal: the lines still to be typed, and everything the program has
  done so far, in order.
\<close>

record world =
  stdin :: "string list"
  trace :: "event list"

type_synonym 'a io = "world \<Rightarrow> (error + 'a) \<times> world"

definition io_ret :: "'a \<Rightarrow> 'a io" where
  "io_ret x w = (Inr x, w)"

definition io_raise :: "error \<Rightarrow> 'a io" where
  "io_raise e w = (Inl e, w)"

definition io_bind :: "'a io \<Rightarrow> ('a \<Rightarrow> 'b io) \<Rightarrow> 'b io" where
  \<comment> \<open>sequencing: an exception skips the rest\<close>
  "io_bind m f w = (case m w of (Inl e, w') \<Rightarrow> (Inl e, w') | (Inr x, w') \<Rightarrow> f x w')"

definition io_seq :: "unit io \<Rightarrow> 'b io \<Rightarrow> 'b io" where
  "io_seq m k = io_bind m (\<lambda>_. k)"

definition emit :: "event \<Rightarrow> unit io" where
  "emit e w = (Inr (), w\<lparr>trace := trace w @ [e]\<rparr>)"

definition py_print :: "string \<Rightarrow> unit io" where
  \<comment> \<open>\<open>print(s)\<close>; \<open>print(a, b)\<close> is \<open>py_print (a @ '' '' @ b)\<close>\<close>
  "py_print s = emit (Printed s)"

definition py_input :: "string \<Rightarrow> string io" where
  \<comment> \<open>\<open>input(prompt)\<close>: the next line the operator types, \<open>EOFError\<close> when there is none\<close>
  "py_input prompt w =
     (case stdin w of
        [] \<Rightarrow> (Inl EOFError, w\<lparr>trace := trace w @ [Asked prompt]\<rparr>)
      | l # ls \<Rightarrow> (Inr l, w\<lparr>stdin := ls, trace := trace w @ [Asked prompt]\<rparr>))"

fun print_all :: "string list \<Rightarrow> unit io" where
  \<comment> \<open>a \<open>for\<close> loop that prints one line per element\<close>
  "print_all [] = io_ret ()"
| "print_all (s # ss) = io_seq (py_print s) (print_all ss)"

definition run_capture :: "env \<Rightarrow> string list \<Rightarrow> bool \<Rightarrow> nat \<Rightarrow> completed io" where
  \<comment> \<open>\<open>subprocess.run(cmd, text=True, capture_output=True, check=check, timeout=timeout)\<close>\<close>
  "run_capture E cmd check timeout w =
     (let w' = w\<lparr>trace := trace w @ [Ran cmd]\<rparr>; p = child E cmd in
      if seconds p > timeout then (Inl (TimeoutExpired cmd), w')
      else if check \<and> returncode p \<noteq> 0
           then (Inl (CalledProcessError (returncode p) cmd (stdout p) (stderr p)), w')
      else (Inr p, w'))"

definition run :: "env \<Rightarrow> string list \<Rightarrow> bool \<Rightarrow> nat \<Rightarrow> string io" where
  "run E cmd check timeout = io_bind (run_capture E cmd check timeout) (\<lambda>p. io_ret (stdout p))"

definition run_stream :: "env \<Rightarrow> string list \<Rightarrow> int io" where
  \<comment> \<open>\<open>subprocess.run(cmd, check=False)\<close>: no capture, no time limit\<close>
  "run_stream E cmd w = (Inr (returncode (child E cmd)), w\<lparr>trace := trace w @ [Streamed cmd]\<rparr>)"

definition adb_base :: "Ctx \<Rightarrow> string list" where
  "adb_base ctx = (if has_serial ctx then [''adb'', ''-s'', serial_text ctx] else [''adb''])"

definition fastboot_base :: "Ctx \<Rightarrow> string list" where
  "fastboot_base ctx = (if has_serial ctx then [''fastboot'', ''-s'', serial_text ctx] else [''fastboot''])"

fun is_child :: "event \<Rightarrow> bool" where
  "is_child (Ran cmd) = True"
| "is_child (Streamed cmd) = True"
| "is_child e = False"

fun is_write :: "event \<Rightarrow> bool" where
  "is_write (Wrote path text) = True"
| "is_write e = False"

definition children :: "world \<Rightarrow> event list" where
  \<comment> \<open>the child processes started so far\<close>
  "children w = filter is_child (trace w)"

definition writes :: "world \<Rightarrow> event list" where
  \<comment> \<open>the files written so far\<close>
  "writes w = filter is_write (trace w)"

section \<open>Device selector\<close>

fun enumerate_from :: "nat \<Rightarrow> string list \<Rightarrow> (nat \<times> string) list" where
  \<comment> \<open>\<open>enumerate(xs, start=i)\<close>\<close>
  "enumerate_from i [] = []"
| "enumerate_from i (x # xs) = (i, x) # enumerate_from (Suc i) xs"

definition pick_adb_serial :: "env \<Rightarrow> string option io" where
  "pick_adb_serial E =
     io_bind (run E [''adb'', ''devices'', ''-l''] True 10) (\<lambda>out.
     let serials = parse_adb_devices out in
     if serials = [] then io_ret None
     else if length serials = 1 then io_ret (Some (serials ! 0))
     else
       io_seq (py_print ''Multiple ADB devices detected:'')
      (io_seq (print_all (map (\<lambda>(i, s). '' '' @ str_nat i @ '') '' @ s) (enumerate_from 1 serials)))
      (io_bind (py_input ''Pick one: '') (\<lambda>raw.
       let choice = str_strip raw in
       if \<not> str_isdigit choice then io_ret None
       else (case py_int (int_max_str_digits E) choice of
               None \<Rightarrow> io_raise (ValueError choice)
             | Some idx \<Rightarrow>
                 io_ret (if 1 \<le> idx \<and> idx \<le> int (length serials)
                         then Some (serials ! nat (idx - 1)) else None))))))"

section \<open>Terminal colours, directories and shared steps\<close>

definition RESET :: string where "RESET = [CHR 0x1B] @ ''[0m''"
definition BOLD :: string where "BOLD = [CHR 0x1B] @ ''[1m''"
definition DIM :: string where "DIM = [CHR 0x1B] @ ''[2m''"
definition NEON_PINK :: string where "NEON_PINK = [CHR 0x1B] @ ''[38;5;213m''"
definition NEON_CYAN :: string where "NEON_CYAN = [CHR 0x1B] @ ''[38;5;51m''"
definition NEON_GREEN :: string where "NEON_GREEN = [CHR 0x1B] @ ''[38;5;46m''"
definition NEON_PURPLE :: string where "NEON_PURPLE = [CHR 0x1B] @ ''[38;5;141m''"
definition NEON_YELLOW :: string where "NEON_YELLOW = [CHR 0x1B] @ ''[38;5;226m''"
definition NEON_RED :: string where "NEON_RED = [CHR 0x1B] @ ''[38;5;196m''"
definition GRAY :: string where "GRAY = [CHR 0x1B] @ ''[38;5;245m''"

definition path_child :: "string \<Rightarrow> string \<Rightarrow> string" where
  \<comment> \<open>\<open>str(dir / name)\<close> for a relative \<open>name\<close> of one component\<close>
  "path_child dir name = dir @ ''/'' @ name"

definition REPORT_DIR :: "env \<Rightarrow> string" where
  "REPORT_DIR E = path_child (path_child (home E) ''scripts'') ''android-reports''"

definition LOG_DIR :: "env \<Rightarrow> string" where
  "LOG_DIR E = path_child (path_child (home E) ''scripts'') ''android_logs''"

definition MEDIA_DIR :: "env \<Rightarrow> string" where
  "MEDIA_DIR E = path_child (path_child (home E) ''scripts'') ''android_media''"

definition mkdir :: "string \<Rightarrow> unit io" where
  \<comment> \<open>\<open>dir.mkdir(parents=True, exist_ok=True)\<close>\<close>
  "mkdir dir = emit (MadeDir dir)"

definition write_text :: "string \<Rightarrow> string \<Rightarrow> unit io" where
  \<comment> \<open>\<open>path.write_text(text)\<close> and \<open>path.write_bytes(data)\<close>\<close>
  "write_text path text = emit (Wrote path text)"

definition pause :: "unit io" where
  \<comment> \<open>\<open>input(GRAY + "Press Enter..." + RESET)\<close>\<close>
  "pause = io_bind (py_input (GRAY @ ''Press Enter...'' @ RESET)) (\<lambda>_. io_ret ())"

definition say_dry_run :: "string list \<Rightarrow> unit io" where
  \<comment> \<open>\<open>print(GRAY + "Dry-run. Would run:" + RESET, " ".join(cmd))\<close>\<close>
  "say_dry_run cmd = py_print (GRAY @ ''Dry-run. Would run:'' @ RESET @ '' '' @ str_join '' '' cmd)"

definition clear :: "unit io" where
  \<comment> \<open>\<open>print("\x1b[2j\x1b[H", end="")\<close>\<close>
  "clear = py_print ([CHR 0x1B] @ ''[2j'' @ [CHR 0x1B] @ ''[H'')"

definition newline :: string where "newline = [CHR 0x0A]"

section \<open>Actions of \<open>android_workbench_ai.py\<close>\<close>

text \<open>
  Every handler receives the session context and only reads it: no handler of the three
  files assigns to one of its fields. A handler is therefore an action that takes the
  context and returns no new one; the menu loop is the only place that builds a changed
  context.
\<close>

definition banner :: string where
  \<comment> \<open>the dash in the second line is \<open>U+2014\<close> in the source, outside the modelled
      range; a hyphen stands for it, one character either way\<close>
  "banner = box [NEON_CYAN @ BOLD @ ''ANDROID WORKBENCH'' @ RESET @ '' '' @ DIM @ ''ai'' @ RESET,
                 GRAY @ ''based on v1.2 - extra ADB/Fastboot options'' @ RESET]
                (NEON_PURPLE @ ''OPENCLAW'' @ RESET)"

definition status_line :: "env \<Rightarrow> string option \<Rightarrow> bool \<Rightarrow> string" where
  "status_line E ser dry =
     (let s = (case ser of None \<Rightarrow> ''(none)'' | Some x \<Rightarrow> if x = [] then ''(none)'' else x);
          run_state = (if dry then NEON_YELLOW @ ''DRY'' @ RESET else NEON_GREEN @ ''LIVE'' @ RESET)
      in GRAY @ ''serial:'' @ RESET @ '' '' @ NEON_CYAN @ s @ RESET @ ''  '' @ GRAY @ ''run:'' @ RESET
         @ '' '' @ run_state @ ''  '' @ GRAY @ now_clock E @ RESET)"

definition action_status :: "env \<Rightarrow> Ctx \<Rightarrow> unit io" where
  "action_status E ctx =
     io_seq (py_print [])
    (io_seq (py_print ''ADB devices:'')
    (io_bind (run E [''adb'', ''devices'', ''-l''] True 10) (\<lambda>out1.
     io_seq (py_print out1)
    (io_seq (py_print ''Fastboot devices:'')
    (io_bind (run E [''fastboot'', ''devices''] True 10) (\<lambda>out2.
     py_print out2))))))"

definition getprop :: "env \<Rightarrow> Ctx \<Rightarrow> string \<Rightarrow> string io" where
  \<comment> \<open>the local function of \<open>action_report\<close>, and \<open>adb_getprop\<close>\<close>
  "getprop E ctx key =
     io_bind (run E (adb_base ctx @ [''shell'', ''getprop'', key]) True 15) (\<lambda>out.
     io_ret (str_strip out))"

definition action_report :: "env \<Rightarrow> Ctx \<Rightarrow> unit io" where
  "action_report E ctx =
     (if \<not> has_serial ctx
      then py_print ''No ADB serial selected (device must be authorized and in Android).''
      else
        io_seq (mkdir (REPORT_DIR E))
       (let ts = now_stamp E;
            path = path_child (REPORT_DIR E) (''report-'' @ serial_text ctx @ ''-'' @ ts @ ''.txt'')
        in
        io_bind (getprop E ctx ''ro.product.model'') (\<lambda>model.
        io_bind (getprop E ctx ''ro.build.version.release'') (\<lambda>android.
        io_bind (getprop E ctx ''ro.build.version.security_patch'') (\<lambda>patch.
        io_bind (getprop E ctx ''ro.build.fingerprint'') (\<lambda>fp.
        io_bind (getprop E ctx ''ro.product.cpu.abi'') (\<lambda>abi.
        io_bind (run E (adb_base ctx @ [''shell'', ''id'']) True 10) (\<lambda>ident.
        let lines = [''serial: '' @ serial_text ctx,
                     ''when: '' @ now_iso E,
                     '''',
                     ''model: '' @ model,
                     ''android: '' @ android,
                     ''security_patch: '' @ patch,
                     ''fingerprint: '' @ fp,
                     ''abi: '' @ abi,
                     '''',
                     ''id:'',
                     str_strip ident]
        in io_seq (write_text path (str_join newline lines @ newline))
                  (py_print (''Wrote: '' @ path))))))))))"

definition logcat_finish :: "Ctx \<Rightarrow> string list \<Rightarrow> string \<Rightarrow> string option \<Rightarrow> unit io" where
  \<comment> \<open>the code of \<open>action_logcat_lab\<close> after its \<open>if\<close>/\<open>elif\<close> chain, reached with the
      command, the captured (and filtered) output and the optional output path\<close>
  "logcat_finish ctx cmd out out_path =
     (if dry_run ctx then io_seq (say_dry_run cmd) pause
      else
        io_seq (case out_path of
                  Some path \<Rightarrow> io_seq (write_text path out) (py_print (''Wrote: '' @ path))
                | None \<Rightarrow> py_print out)
               pause)"

definition logcat_menu_lines :: "string list" where
  "logcat_menu_lines =
     [NEON_CYAN @ ''l1'' @ RESET @ '') Dump last 200 lines (all buffers)'',
      NEON_CYAN @ ''l2'' @ RESET @ '') Live follow (all buffers)'',
      NEON_CYAN @ ''l3'' @ RESET @ '') Crashes only (AndroidRuntime)'',
      NEON_CYAN @ ''l4'' @ RESET @ '') SELinux denials (avc)'',
      NEON_CYAN @ ''l5'' @ RESET @ '') Filter by tag'',
      NEON_CYAN @ ''l6'' @ RESET @ '') Filter by regex (host regex)'',
      NEON_CYAN @ ''l7'' @ RESET @ '') Save dump to file'',
      NEON_CYAN @ ''l8'' @ RESET @ '') Clear logcat buffers (confirm)'',
      NEON_CYAN @ ''b'' @ RESET @ '') Back'']"

definition action_logcat_lab :: "env \<Rightarrow> Ctx \<Rightarrow> unit io" where
  "action_logcat_lab E ctx =
     (if \<not> has_serial ctx
      then io_seq (py_print (NEON_RED @ ''No ADB serial selected.'' @ RESET)) pause
      else
        io_seq (py_print [])
       (io_seq (py_print (box logcat_menu_lines (NEON_PINK @ ''LOGCAT LAB'' @ RESET)))
       (io_bind (py_input (NEON_PINK @ ''> '' @ RESET)) (\<lambda>raw.
        let choice = str_lower (str_strip raw) in
        if choice = ''b'' then io_ret ()
        else if choice = ''l1'' then
          (let cmd = adb_base ctx @ [''logcat'', ''-b'', ''all'', ''-d'', ''-t'', ''200'', ''-v'', ''time''] in
           io_bind (run E cmd True 60) (\<lambda>out. logcat_finish ctx cmd out None))
        else if choice = ''l2'' then
          (let cmd = adb_base ctx @ [''logcat'', ''-b'', ''all'', ''-v'', ''time''] in
           if dry_run ctx then io_seq (say_dry_run cmd) pause
           else io_seq (py_print (GRAY @ ''Streaming logcat. Ctrl+C to stop.'' @ RESET))
                       (io_bind (run_stream E cmd) (\<lambda>rc. io_ret ())))
        else if choice = ''l3'' then
          (let cmd = adb_base ctx @ [''logcat'', ''-v'', ''time'', ''AndroidRuntime:E'', ''*:S''] in
           io_bind (run E cmd True 60) (\<lambda>out. logcat_finish ctx cmd out None))
        else if choice = ''l4'' then
          (let cmd = adb_base ctx @ [''logcat'', ''-b'', ''all'', ''-d'', ''-v'', ''time''] in
           io_bind (run E cmd True 60) (\<lambda>out.
           let out = str_join newline (filter (\<lambda>ln. str_in ''avc:'' (str_lower ln)) (str_splitlines out))
           in logcat_finish ctx cmd out None))
        else if choice = ''l5'' then
          io_bind (py_input ''Tag (e.g. ActivityManager): '') (\<lambda>raw_tag.
          let tag = str_strip raw_tag in
          if tag = [] then io_ret ()
          else
            (let cmd = adb_base ctx @ [''logcat'', ''-b'', ''all'', ''-d'', ''-v'', ''time'', tag @ '':V'', ''*:S''] in
             io_bind (run E cmd True 60) (\<lambda>out. logcat_finish ctx cmd out None)))
        else if choice = ''l6'' then
          io_bind (py_input ''Regex: '') (\<lambda>raw_regex.
          let regex_s = str_strip raw_regex in
          if regex_s = [] then io_ret ()
          else
            (let cmd = adb_base ctx @ [''logcat'', ''-b'', ''all'', ''-d'', ''-v'', ''time''] in
             io_bind (run E cmd True 60) (\<lambda>out.
             case re_compile E regex_s of
               Inl e \<Rightarrow> io_seq (py_print (NEON_RED @ ''Bad regex: '' @ e @ RESET)) pause
             | Inr rx \<Rightarrow>
                 (let out = str_join newline (filter rx (str_splitlines out))
                  in logcat_finish ctx cmd out None))))
        else if choice = ''l7'' then
          io_seq (mkdir (LOG_DIR E))
          (let ts = now_stamp E;
               out_path = path_child (LOG_DIR E) (''logcat-'' @ serial_text ctx @ ''-'' @ ts @ ''.txt'');
               cmd = adb_base ctx @ [''logcat'', ''-b'', ''all'', ''-d'', ''-v'', ''time''] in
           io_bind (run E cmd True 60) (\<lambda>out. logcat_finish ctx cmd out (Some out_path)))
        else if choice = ''l8'' then
          io_bind (py_input ''This clears log buffers. Type YES to continue: '') (\<lambda>raw_confirm.
          let confirm = str_strip raw_confirm in
          if confirm \<noteq> ''YES'' then io_ret ()
          else
            (let cmd = adb_base ctx @ [''logcat'', ''-b'', ''all'', ''-c''] in
             io_bind (run E cmd True 30) (\<lambda>out. logcat_finish ctx cmd out None)))
        else io_ret ()))))"

definition require_serial :: "Ctx \<Rightarrow> bool io" where
  "require_serial ctx =
     (if has_serial ctx then io_ret True
      else io_seq (py_print (NEON_RED @ ''No ADB serial selected.'' @ RESET))
                  (io_seq pause (io_ret False)))"

definition action_device_summary :: "env \<Rightarrow> Ctx \<Rightarrow> unit io" where
  "action_device_summary E ctx =
     io_bind (require_serial ctx) (\<lambda>ok.
     if \<not> ok then io_ret ()
     else
       (let sh = (\<lambda>args. io_bind (run E (adb_base ctx @ [''shell''] @ args) True 20) (\<lambda>out.
                          io_ret (str_strip out))) in
        io_bind (getprop E ctx ''ro.product.model'') (\<lambda>model.
        io_bind (getprop E ctx ''ro.build.version.release'') (\<lambda>android.
        io_bind (getprop E ctx ''ro.build.version.security_patch'') (\<lambda>patch.
        io_bind (getprop E ctx ''ro.build.fingerprint'') (\<lambda>fp.
        io_bind (getprop E ctx ''ro.product.cpu.abi'') (\<lambda>abi.
        io_bind (sh [''dumpsys'', ''battery'']) (\<lambda>batt.
        io_bind (sh [''uptime'']) (\<lambda>uptime.
        let lines = [''model: '' @ model,
                     ''android: '' @ android,
                     ''security_patch: '' @ patch,
                     ''abi: '' @ abi,
                     ''fingerprint: '' @ fp,
                     '''',
                     ''uptime:'',
                     uptime,
                     '''',
                     ''battery:''] @ take 40 (str_splitlines batt)
        in io_seq (py_print (box lines (NEON_PINK @ ''DEVICE SUMMARY'' @ RESET))) pause)))))))))"

definition action_foreground_app :: "env \<Rightarrow> Ctx \<Rightarrow> unit io" where
  "action_foreground_app E ctx =
     io_bind (require_serial ctx) (\<lambda>ok.
     if \<not> ok then io_ret ()
     else
       io_bind (run E (adb_base ctx @ [''shell'', ''dumpsys'', ''activity'', ''activities'']) True 30) (\<lambda>out.
       let hits = map str_strip (filter (\<lambda>ln. str_in ''mResumedActivity'' ln \<or> str_in ''topResumedActivity'' ln)
                                        (str_splitlines out)) in
       io_bind (if hits = [] then
                  io_bind (run E (adb_base ctx @ [''shell'', ''dumpsys'', ''window'']) True 30) (\<lambda>out2.
                  io_ret (hits @ map str_strip (filter (\<lambda>ln. str_in ''mCurrentFocus'' ln \<or> str_in ''mFocusedApp'' ln)
                                                       (str_splitlines out2))))
                else io_ret hits) (\<lambda>hits.
       let lines = (if hits \<noteq> [] then hits
                    else [''(No foreground activity line found - dumpsys output format may differ.)''])
       in io_seq (py_print (box lines (NEON_PINK @ ''FOREGROUND'' @ RESET))) pause)))"

definition action_install_apk :: "env \<Rightarrow> Ctx \<Rightarrow> unit io" where
  "action_install_apk E ctx =
     io_bind (require_serial ctx) (\<lambda>ok.
     if \<not> ok then io_ret ()
     else
       io_bind (py_input ''Path to APK (e.g. ~/Downloads/app.apk): '') (\<lambda>raw.
       let apk = str_strip raw in
       if apk = [] then io_ret ()
       else
         (let apk_path = expanduser E apk in
          if \<not> path_exists E apk_path
          then io_seq (py_print (NEON_RED @ ''Not found: '' @ apk_path @ RESET)) pause
          else
            (let cmd = adb_base ctx @ [''install'', ''-r'', apk_path] in
             if dry_run ctx then io_seq (say_dry_run cmd) pause
             else
               io_bind (run_capture E cmd False 300) (\<lambda>cp.
               io_seq (py_print (str_strip (stdout cp)))
              (io_seq (if str_strip (stderr cp) \<noteq> []
                       then py_print (GRAY @ str_strip (stderr cp) @ RESET) else io_ret ())
                      pause))))))"

definition action_clear_app_data :: "env \<Rightarrow> Ctx \<Rightarrow> unit io" where
  "action_clear_app_data E ctx =
     io_bind (require_serial ctx) (\<lambda>ok.
     if \<not> ok then io_ret ()
     else
       io_bind (py_input ''Package to clear (e.g. com.example.app): '') (\<lambda>raw.
       let pkg = str_strip raw in
       if pkg = [] then io_ret ()
       else
         (let cmd = adb_base ctx @ [''shell'', ''pm'', ''clear'', pkg] in
          if dry_run ctx then io_seq (say_dry_run cmd) pause
          else
            io_bind (run E cmd False 60) (\<lambda>out0.
            let out = str_strip out0 in
            io_seq (py_print (if out \<noteq> [] then out else ''(no output)'')) pause))))"

definition action_open_url :: "env \<Rightarrow> Ctx \<Rightarrow> unit io" where
  "action_open_url E ctx =
     io_bind (require_serial ctx) (\<lambda>ok.
     if \<not> ok then io_ret ()
     else
       io_bind (py_input ''URL (https://...): '') (\<lambda>raw.
       let url = str_strip raw in
       if url = [] then io_ret ()
       else
         (let cmd = adb_base ctx @ [''shell'', ''am'', ''start'', ''-a'', ''android.intent.action.VIEW'', ''-d'', url] in
          if dry_run ctx then io_seq (say_dry_run cmd) pause
          else
            io_bind (run E cmd False 30) (\<lambda>out0.
            let out = str_strip out0 in
            io_seq (py_print (if out \<noteq> [] then out else ''(no output)'')) pause))))"

definition run_raw :: "env \<Rightarrow> string list \<Rightarrow> completed io" where
  \<comment> \<open>\<open>subprocess.run(cmd, capture_output=True, check=False)\<close>: no time limit\<close>
  "run_raw E cmd w = (Inr (child E cmd), w\<lparr>trace := trace w @ [Ran cmd]\<rparr>)"

definition action_screenshot :: "env \<Rightarrow> Ctx \<Rightarrow> unit io" where
  "action_screenshot E ctx =
     io_bind (require_serial ctx) (\<lambda>ok.
     if \<not> ok then io_ret ()
     else
       io_seq (mkdir (MEDIA_DIR E))
       (let ts = now_stamp E;
            out_path = path_child (MEDIA_DIR E) (''screenshot-'' @ serial_text ctx @ ''-'' @ ts @ ''.png'');
            cmd = adb_base ctx @ [''exec-out'', ''screencap'', ''-p''] in
        if dry_run ctx
        then io_seq (py_print (GRAY @ ''Dry-run. Would run:'' @ RESET @ '' '' @ str_join '' '' cmd
                               @ '' '' @ (''> '' @ out_path)))
                    pause
        else
          io_bind (run_raw E cmd) (\<lambda>p.
          if returncode p \<noteq> 0
          then io_seq (py_print (NEON_RED @ ''screencap failed'' @ RESET))
              (io_seq (if stderr p \<noteq> [] then py_print (stderr p) else io_ret ()) pause)
          else io_seq (write_text out_path (stdout p))
              (io_seq (py_print (''Wrote: '' @ out_path)) pause))))"

definition screenrecord_duration :: "env \<Rightarrow> string \<Rightarrow> int" where
  \<comment> \<open>lines 468 to 475 of \<open>action_screenrecord\<close>: the duration computed from the line the
      operator typed\<close>
  "screenrecord_duration E raw =
     (let dur_s = str_strip raw;
          duration = 15;
          duration = (if dur_s \<noteq> []
                      then (case py_int (int_max_str_digits E) dur_s of Some n \<Rightarrow> n | None \<Rightarrow> 15)
                      else duration)
      in max 1 (min duration 180))"

definition action_screenrecord :: "env \<Rightarrow> Ctx \<Rightarrow> unit io" where
  "action_screenrecord E ctx =
     io_bind (require_serial ctx) (\<lambda>ok.
     if \<not> ok then io_ret ()
     else
       io_seq (mkdir (MEDIA_DIR E))
       (let ts = now_stamp E;
            device_path = ''/sdcard/workbench-record-'' @ ts @ ''.mp4'';
            host_path = path_child (MEDIA_DIR E) (''screenrecord-'' @ serial_text ctx @ ''-'' @ ts @ ''.mp4'') in
        io_bind (py_input ''Duration seconds (max 180, default 15): '') (\<lambda>raw.
        let duration = screenrecord_duration E raw;
            cmd = adb_base ctx @ [''shell'', ''screenrecord'', ''--time-limit'', py_str_int duration, device_path] in
        if dry_run ctx
        then io_seq (say_dry_run cmd)
            (io_seq (py_print (GRAY @ ''Then: adb pull'' @ RESET @ '' '' @ device_path @ '' '' @ host_path))
                    pause)
        else
          io_seq (py_print (GRAY @ ''Recording for '' @ py_str_int duration @ ''s...'' @ RESET))
         (io_bind (run_capture E cmd False (nat (duration + 30))) (\<lambda>rec.
          let pull_cmd = adb_base ctx @ [''pull'', device_path, host_path] in
          io_bind (run_capture E pull_cmd False 300) (\<lambda>cp.
          io_seq (if returncode cp = 0
                  then io_seq (py_print (''Wrote: '' @ host_path))
                      (io_bind (run_capture E (adb_base ctx @ [''shell'', ''rm'', ''-f'', device_path]) False 30)
                               (\<lambda>rm. io_ret ()))
                  else io_seq (py_print (NEON_RED @ ''pull failed'' @ RESET))
                      (io_seq (py_print (str_strip (stdout cp))) (py_print (str_strip (stderr cp)))))
                 pause))))))"

definition fastboot_show :: "env \<Rightarrow> Ctx \<Rightarrow> string list \<Rightarrow> unit io" where
  \<comment> \<open>the common end of the two fastboot actions: the dry-run gate, then run and print\<close>
  "fastboot_show E ctx cmd =
     (if dry_run ctx then io_seq (say_dry_run cmd) pause
      else
        io_bind (run_capture E cmd False 60) (\<lambda>cp.
        let out = str_strip (stdout cp @ stderr cp) in
        io_seq (py_print (if out \<noteq> [] then out else ''(no output)'')) pause))"

definition action_fastboot_getvar_all :: "env \<Rightarrow> Ctx \<Rightarrow> unit io" where
  "action_fastboot_getvar_all E ctx = fastboot_show E ctx (fastboot_base ctx @ [''getvar'', ''all''])"

definition action_fastboot_reboot_menu :: "env \<Rightarrow> Ctx \<Rightarrow> unit io" where
  "action_fastboot_reboot_menu E ctx =
     io_seq (py_print [])
    (io_seq (py_print (box [NEON_CYAN @ ''f1'' @ RESET @ '') fastboot reboot'',
                            NEON_CYAN @ ''f2'' @ RESET @ '') fastboot reboot bootloader'',
                            NEON_CYAN @ ''f3'' @ RESET @ '') fastboot reboot recovery'',
                            NEON_CYAN @ ''b'' @ RESET @ '') Back'']
                           (NEON_PINK @ ''FASTBOOT REBOOT'' @ RESET)))
    (io_bind (py_input (NEON_PINK @ ''> '' @ RESET)) (\<lambda>raw.
     let choice = str_lower (str_strip raw) in
     if choice = ''b'' then io_ret ()
     else if choice = ''f1'' then fastboot_show E ctx (fastboot_base ctx @ [''reboot''])
     else if choice = ''f2'' then fastboot_show E ctx (fastboot_base ctx @ [''reboot'', ''bootloader''])
     else if choice = ''f3'' then fastboot_show E ctx (fastboot_base ctx @ [''reboot'', ''recovery''])
     else io_ret ())))"

section \<open>Main menu of \<open>android_workbench_ai.py\<close>\<close>

definition io_try :: "'a io \<Rightarrow> (error \<Rightarrow> 'a io option) \<Rightarrow> 'a io" where
  \<comment> \<open>\<open>try: m except ...\<close>: the handler gives \<open>None\<close> for an exception that no \<open>except\<close>
      clause names, which then propagates\<close>
  "io_try m handler w =
     (case m w of
        (Inl e, w') \<Rightarrow> (case handler e of None \<Rightarrow> (Inl e, w') | Some k \<Rightarrow> k w')
      | (Inr x, w') \<Rightarrow> (Inr x, w'))"

definition print_failure :: "string list \<Rightarrow> string \<Rightarrow> string \<Rightarrow> unit io" where
  \<comment> \<open>the body of \<open>except subprocess.CalledProcessError as e\<close>\<close>
  "print_failure cmd out err =
     io_seq (py_print (NEON_RED @ ''Command failed:'' @ RESET))
    (io_seq (py_print (str_join '' '' cmd))
    (io_seq (if out \<noteq> [] then py_print (newline @ ''stdout:'' @ newline @ out) else io_ret ())
            (if err \<noteq> [] then py_print (newline @ ''stderr:'' @ newline @ err) else io_ret ())))"

definition menu_except :: "error \<Rightarrow> bool io option" where
  \<comment> \<open>the two \<open>except\<close> clauses of the menu loop; the result \<open>False\<close> says that no
      \<open>continue\<close> was executed\<close>
  "menu_except e =
     (case e of
        TimeoutExpired cmd \<Rightarrow>
          Some (io_seq (py_print (NEON_RED @ ''Command timed out.'' @ RESET)) (io_ret False))
      | CalledProcessError rc cmd out err \<Rightarrow> Some (io_seq (print_failure cmd out err) (io_ret False))
      | EOFError \<Rightarrow> None
      | ValueError s \<Rightarrow> None)"

definition menu_lines :: "string list" where
  "menu_lines =
     [NEON_CYAN @ ''1'' @ RESET @ '' Status (adb/fastboot devices)'',
      NEON_CYAN @ ''2'' @ RESET @ '' Write quick report'',
      NEON_CYAN @ ''3'' @ RESET @ '' Reboot bootloader (adb)'',
      NEON_CYAN @ ''4'' @ RESET @ '' Logcat Lab'',
      '''',
      NEON_CYAN @ ''5'' @ RESET @ '' Device Summary (props/battery/uptime)'',
      NEON_CYAN @ ''6'' @ RESET @ '' Screenrecord (pull to host)'',
      NEON_CYAN @ ''7'' @ RESET @ '' Foreground app/activity'',
      NEON_CYAN @ ''8'' @ RESET @ '' Install APK'',
      NEON_CYAN @ ''9'' @ RESET @ '' Clear app data'',
      NEON_CYAN @ ''u'' @ RESET @ '' Open URL on device'',
      NEON_CYAN @ ''s'' @ RESET @ '' Screenshot (pull to host)'',
      '''',
      NEON_CYAN @ ''fa'' @ RESET @ '' Fastboot getvar all'',
      NEON_CYAN @ ''fr'' @ RESET @ '' Fastboot reboot menu'',
      '''',
      NEON_CYAN @ ''d'' @ RESET @ '' Toggle dry-run'',
      NEON_CYAN @ ''q'' @ RESET @ '' Quit'']"

definition menu_dispatch :: "env \<Rightarrow> Ctx \<Rightarrow> string \<Rightarrow> bool io" where
  \<comment> \<open>the body of the \<open>try\<close> block; the result is \<open>True\<close> when the branch ends in
      \<open>continue\<close>\<close>
  "menu_dispatch E ctx choice =
     (if choice = ''1'' then io_seq (action_status E ctx) (io_ret False)
      else if choice = ''2'' then io_seq (action_report E ctx) (io_ret False)
      else if choice = ''3'' then
        (if \<not> has_serial ctx then io_seq (py_print ''No ADB serial selected.'') (io_ret False)
         else
           (let cmd = adb_base ctx @ [''reboot'', ''bootloader''] in
            io_seq (if dry_run ctx then say_dry_run cmd
                    else io_seq (py_print (''Running: '' @ str_join '' '' cmd))
                                (io_bind (run E cmd True 30) (\<lambda>out. io_ret ())))
           (io_seq pause (io_ret True))))
      else if choice = ''4'' then io_seq (action_logcat_lab E ctx) (io_ret True)
      else if choice = ''5'' then io_seq (action_device_summary E ctx) (io_ret True)
      else if choice = ''6'' then io_seq (action_screenrecord E ctx) (io_ret True)
      else if choice = ''7'' then io_seq (action_foreground_app E ctx) (io_ret True)
      else if choice = ''8'' then io_seq (action_install_apk E ctx) (io_ret True)
      else if choice = ''9'' then io_seq (action_clear_app_data E ctx) (io_ret True)
      else if choice = ''u'' then io_seq (action_open_url E ctx) (io_ret True)
      else if choice = ''s'' then io_seq (action_screenshot E ctx) (io_ret True)
      else if choice = ''fa'' then io_seq (action_fastboot_getvar_all E ctx) (io_ret True)
      else if choice = ''fr'' then io_seq (action_fastboot_reboot_menu E ctx) (io_ret True)
      else io_seq (py_print ''Unknown choice.'') (io_ret False))"

definition menu_body :: "env \<Rightarrow> Ctx \<Rightarrow> (Ctx \<times> bool) io" where
  \<comment> \<open>one iteration of \<open>while True\<close>: the context afterwards, and \<open>False\<close> when the
      iteration executed \<open>return\<close>\<close>
  "menu_body E ctx =
     io_seq clear
    (io_seq (py_print banner)
    (io_seq (py_print (status_line E (serial ctx) (dry_run ctx)))
    (io_seq (py_print [])
    (io_seq (py_print (box menu_lines (NEON_PINK @ ''MAIN MENU'' @ RESET)))
    (io_bind (py_input (NEON_PINK @ ''> '' @ RESET)) (\<lambda>raw.
     let choice = str_lower (str_strip raw) in
     if choice = ''d'' then io_ret (ctx\<lparr>dry_run := \<not> dry_run ctx\<rparr>, True)
     else if choice = ''q'' then io_ret (ctx, False)
     else
       io_bind (io_try (menu_dispatch E ctx choice) menu_except) (\<lambda>continued.
       if continued then io_ret (ctx, True)
       else io_bind (py_input (GRAY @ ''Press Enter to continue...'' @ RESET)) (\<lambda>line.
            io_ret (ctx, True)))))))))"

fun menu_iterate :: "nat \<Rightarrow> env \<Rightarrow> Ctx \<Rightarrow> (Ctx \<times> bool) io" where
  \<comment> \<open>the first \<open>n\<close> iterations of the loop, fewer if one of them returns or raises; the
      flag is \<open>True\<close> while the loop is still running\<close>
  "menu_iterate 0 E ctx = io_ret (ctx, True)"
| "menu_iterate (Suc n) E ctx =
     io_bind (menu_body E ctx) (\<lambda>(ctx', running).
     if running then menu_iterate n E ctx' else io_ret (ctx', False))"

definition menu_start :: "env \<Rightarrow> string option \<Rightarrow> Ctx io" where
  \<comment> \<open>\<open>ctx = Ctx(serial=serial or pick_adb_serial())\<close>\<close>
  "menu_start E arg =
     io_bind (case arg of
                None \<Rightarrow> pick_adb_serial E
              | Some s \<Rightarrow> if s \<noteq> [] then io_ret (Some s) else pick_adb_serial E) (\<lambda>picked.
     io_ret \<lparr>serial = picked, dry_run = False, verbose = True\<rparr>)"

definition menu :: "nat \<Rightarrow> env \<Rightarrow> string option \<Rightarrow> (Ctx \<times> bool) io" where
  "menu n E arg = io_bind (menu_start E arg) (\<lambda>ctx. menu_iterate n E ctx)"

section \<open>\<open>android-workbench-v1.2.py\<close>\<close>

definition banner_v12 :: string where
  "banner_v12 = box [NEON_CYAN @ BOLD @ ''ANDROID WORKBENCH'' @ RESET @ '' '' @ DIM @ ''v1.2'' @ RESET,
                     GRAY @ ''adb / fastboot operator console'' @ RESET]
                    (NEON_PURPLE @ ''OPENCLAW'' @ RESET)"

definition status_line_v12 :: "env \<Rightarrow> string option \<Rightarrow> string \<Rightarrow> bool \<Rightarrow> string" where
  "status_line_v12 E ser mode dry =
     (let s = (case ser of None \<Rightarrow> ''(none)'' | Some x \<Rightarrow> if x = [] then ''(none)'' else x);
          run_state = (if dry then NEON_YELLOW @ ''DRY'' @ RESET else NEON_GREEN @ ''LIVE'' @ RESET)
      in GRAY @ ''serial:'' @ RESET @ '' '' @ NEON_CYAN @ s @ RESET @ '' ''
         @ GRAY @ ''mode:'' @ RESET @ '' '' @ NEON_PINK @ mode @ RESET @ '' ''
         @ GRAY @ ''run:'' @ RESET @ '' '' @ run_state @ '' '' @ GRAY @ now_clock E @ RESET)"

definition action_report_v12 :: "env \<Rightarrow> Ctx \<Rightarrow> unit io" where
  "action_report_v12 E ctx =
     (if \<not> has_serial ctx
      then py_print ''No ADB serial selected (device must be authorized and in Android).''
      else
        io_seq (mkdir (REPORT_DIR E))
       (let ts = now_stamp E;
            path = path_child (REPORT_DIR E) (''report-'' @ serial_text ctx @ ''-'' @ ts @ ''.txt'')
        in
        io_bind (getprop E ctx ''ro.product.model'') (\<lambda>model.
        io_bind (getprop E ctx ''ro.build.version.release'') (\<lambda>android.
        io_bind (getprop E ctx ''ro.build.fingerprint'') (\<lambda>fp.
        io_bind (getprop E ctx ''ro.boot.verifiedbootstate'') (\<lambda>vbs.
        io_bind (getprop E ctx ''ro.boot.flash.locked'') (\<lambda>locked.
        io_bind (getprop E ctx ''ro.boot.vbmeta.device_state'') (\<lambda>vbmeta.
        io_bind (run E (adb_base ctx @ [''shell'', ''id'']) True 10) (\<lambda>ident.
        let lines = [''serial: '' @ serial_text ctx,
                     ''when: '' @ now_iso E,
                     '''',
                     ''model: '' @ model,
                     ''android: '' @ android,
                     ''fingerprint: '' @ fp,
                     ''verifiedbootstate: '' @ vbs,
                     ''flash.locked: '' @ locked,
                     ''vbmeta.device_state: '' @ vbmeta,
                     '''',
                     ''id:'',
                     str_strip ident]
        in io_seq (write_text path (str_join newline lines @ newline))
                  (py_print (''Wrote: '' @ path)))))))))))"

definition logcat_menu_lines_v12 :: "string list" where
  "logcat_menu_lines_v12 =
     [NEON_CYAN @ ''1'' @ RESET @ '') Dump last 200 lines (all buffers)'',
      NEON_CYAN @ ''2'' @ RESET @ '') Live follow (all buffers)'',
      NEON_CYAN @ ''3'' @ RESET @ '') Crashes only (AndroidRuntime)'',
      NEON_CYAN @ ''4'' @ RESET @ '') SELinux denials (avc) [host filter]'',
      NEON_CYAN @ ''5'' @ RESET @ '') Filter by tag'',
      NEON_CYAN @ ''6'' @ RESET @ '') Filter by regex (host regex)'',
      NEON_CYAN @ ''7'' @ RESET @ '') Save dump to file'',
      NEON_CYAN @ ''8'' @ RESET @ '') Clear logcat buffers (confirm)'',
      NEON_CYAN @ ''b'' @ RESET @ '') Back'']"

definition action_logcat_lab_v12 :: "env \<Rightarrow> Ctx \<Rightarrow> unit io" where
  "action_logcat_lab_v12 E ctx =
     (if \<not> has_serial ctx
      then io_seq (py_print (NEON_RED @ ''No ADB serial selected.'' @ RESET)) pause
      else
        io_seq (py_print [])
       (io_seq (py_print (box logcat_menu_lines_v12 (NEON_PINK @ ''LOGCAT LAB'' @ RESET)))
       (io_bind (py_input (NEON_PINK @ ''> '' @ RESET)) (\<lambda>raw.
        let choice = str_lower (str_strip raw) in
        if choice = ''b'' then io_ret ()
        else if choice = ''1'' then
          (let cmd = adb_base ctx @ [''logcat'', ''-b'', ''all'', ''-d'', ''-t'', ''200'', ''-v'', ''time''] in
           io_bind (run E cmd True 60) (\<lambda>out. logcat_finish ctx cmd out None))
        else if choice = ''2'' then
          (if dry_run ctx
           then (let cmd = adb_base ctx @ [''logcat'', ''-b'', ''all'', ''-v'', ''time''] in
                 io_seq (say_dry_run cmd) pause)
           else io_seq (py_print (GRAY @ ''Streaming logcat. Ctrl+C to stop.'' @ RESET))
                       (io_bind (run_stream E (adb_base ctx @ [''logcat'', ''-b'', ''all'', ''-v'', ''time'']))
                                (\<lambda>rc. io_ret ())))
        else if choice = ''3'' then
          (let cmd = adb_base ctx @ [''logcat'', ''-v'', ''time'', ''AndroidRuntime:E'', ''*:S''] in
           io_bind (run E cmd True 60) (\<lambda>out. logcat_finish ctx cmd out None))
        else if choice = ''4'' then
          (let cmd = adb_base ctx @ [''logcat'', ''-b'', ''all'', ''-d'', ''-v'', ''time''] in
           io_bind (run E cmd True 60) (\<lambda>out.
           let out = str_join newline (filter (\<lambda>ln. str_in ''avc:'' (str_lower ln)) (str_splitlines out))
           in logcat_finish ctx cmd out None))
        else if choice = ''5'' then
          io_bind (py_input ''Tag (e.g. ActivityManager): '') (\<lambda>raw_tag.
          let tag = str_strip raw_tag in
          if tag = [] then io_ret ()
          else
            (let cmd = adb_base ctx @ [''logcat'', ''-b'', ''all'', ''-d'', ''-v'', ''time'', tag @ '':V'', ''*:S''] in
             io_bind (run E cmd True 60) (\<lambda>out. logcat_finish ctx cmd out None)))
        else if choice = ''6'' then
          io_bind (py_input ''Regex: '') (\<lambda>raw_regex.
          let regex = str_strip raw_regex in
          if regex = [] then io_ret ()
          else
            (let cmd = adb_base ctx @ [''logcat'', ''-b'', ''all'', ''-d'', ''-v'', ''time''] in
             io_bind (run E cmd True 60) (\<lambda>out.
             case re_compile E regex of
               Inl e \<Rightarrow> io_seq (py_print (NEON_RED @ ''Bad regex: '' @ e @ RESET)) pause
             | Inr rx \<Rightarrow>
                 (let out = str_join newline (filter rx (str_splitlines out))
                  in logcat_finish ctx cmd out None))))
        else if choice = ''7'' then
          io_seq (mkdir (LOG_DIR E))
          (let ts = now_stamp E;
               out_path = path_child (LOG_DIR E) (''logcat-'' @ serial_text ctx @ ''-'' @ ts @ ''.txt'');
               cmd = adb_base ctx @ [''logcat'', ''-b'', ''all'', ''-d'', ''-v'', ''time''] in
           io_bind (run E cmd True 60) (\<lambda>out. logcat_finish ctx cmd out (Some out_path)))
        else if choice = ''8'' then
          io_bind (py_input ''This clears log buffers. Type YES to continue: '') (\<lambda>raw_confirm.
          let confirm = str_strip raw_confirm in
          if confirm \<noteq> ''YES'' then io_ret ()
          else
            (let cmd = adb_base ctx @ [''logcat'', ''-b'', ''all'', ''-c''] in
             io_bind (run E cmd True 30) (\<lambda>out. logcat_finish ctx cmd out None)))
        else io_ret ()))))"

definition menu_lines_v12 :: "string list" where
  "menu_lines_v12 =
     [NEON_CYAN @ ''1'' @ RESET @ '' Status (adb/fastboot devices)'',
      NEON_CYAN @ ''2'' @ RESET @ '' Write quick report'',
      NEON_CYAN @ ''3'' @ RESET @ '' Reboot bootloader'',
      NEON_CYAN @ ''4'' @ RESET @ '' Logcat Lab'',
      NEON_CYAN @ ''d'' @ RESET @ '' Toggle dry-run'',
      NEON_CYAN @ ''q'' @ RESET @ '' Quit'']"

definition menu_dispatch_v12 :: "env \<Rightarrow> Ctx \<Rightarrow> string \<Rightarrow> unit io" where
  \<comment> \<open>the body of the \<open>try\<close> block\<close>
  "menu_dispatch_v12 E ctx choice =
     (if choice = ''1'' then action_status E ctx
      else if choice = ''2'' then action_report_v12 E ctx
      else if choice = ''3'' then
        (if \<not> has_serial ctx then py_print ''No ADB serial selected.''
         else
           (let cmd = adb_base ctx @ [''reboot'', ''bootloader''] in
            if dry_run ctx then say_dry_run cmd
            else io_seq (py_print (''Running: '' @ str_join '' '' cmd))
                        (io_bind (run E cmd True 30) (\<lambda>out. io_ret ()))))
      else if choice = ''4'' then action_logcat_lab_v12 E ctx
      else py_print ''Unknown choice.'')"

definition menu_except_v12 :: "error \<Rightarrow> unit io option" where
  "menu_except_v12 e =
     (case e of
        CalledProcessError rc cmd out err \<Rightarrow> Some (print_failure cmd out err)
      | TimeoutExpired cmd \<Rightarrow> Some (py_print (NEON_RED @ ''Command timed out.'' @ RESET))
      | EOFError \<Rightarrow> None
      | ValueError s \<Rightarrow> None)"

definition menu_body_v12 :: "env \<Rightarrow> Ctx \<Rightarrow> (Ctx \<times> bool) io" where
  "menu_body_v12 E ctx =
     io_seq clear
    (io_seq (py_print banner_v12)
    (io_seq (py_print (status_line_v12 E (serial ctx) ''adb'' (dry_run ctx)))
    (io_seq (py_print [])
    (io_seq (py_print (box menu_lines_v12 (NEON_PINK @ ''MAIN MENU'' @ RESET)))
    (io_bind (py_input (NEON_PINK @ ''> '' @ RESET)) (\<lambda>raw.
     let choice = str_lower (str_strip raw) in
     if choice = ''d'' then io_ret (ctx\<lparr>dry_run := \<not> dry_run ctx\<rparr>, True)
     else if choice = ''q'' then io_ret (ctx, False)
     else
       io_seq (io_try (menu_dispatch_v12 E ctx choice) menu_except_v12)
      (io_bind (py_input (GRAY @ ''Press Enter to continue...'' @ RESET)) (\<lambda>line.
       io_ret (ctx, True)))))))))"

fun menu_iterate_v12 :: "nat \<Rightarrow> env \<Rightarrow> Ctx \<Rightarrow> (Ctx \<times> bool) io" where
  "menu_iterate_v12 0 E ctx = io_ret (ctx, True)"
| "menu_iterate_v12 (Suc n) E ctx =
     io_bind (menu_body_v12 E ctx) (\<lambda>(ctx', running).
     if running then menu_iterate_v12 n E ctx' else io_ret (ctx', False))"

definition menu_v12 :: "nat \<Rightarrow> env \<Rightarrow> string option \<Rightarrow> (Ctx \<times> bool) io" where
  \<comment> \<open>\<open>ctx = Ctx(); ctx.serial = serial or pick_adb_serial()\<close>, then the loop\<close>
  "menu_v12 n E arg = io_bind (menu_start E arg) (\<lambda>ctx. menu_iterate_v12 n E ctx)"

section \<open>\<open>android_workbench.py\<close>\<close>

text \<open>
  This variant has no \<open>run_capture\<close> and no \<open>run_stream\<close>: every command goes through
  \<open>run\<close>. Its device selector differs from \<^const>\<open>pick_adb_serial\<close> only in the
  indentation of the printed list.
\<close>

definition banner_v01 :: string where
  "banner_v01 = box [NEON_CYAN @ BOLD @ ''ANDROID WORKBENCH'' @ RESET @ '' '' @ DIM @ ''v0.1'' @ RESET,
                     GRAY @ ''adb / fastboot operator console'' @ RESET]
                    (NEON_PURPLE @ '''' @ RESET)"

definition status_line_v01 :: "env \<Rightarrow> string option \<Rightarrow> string \<Rightarrow> bool \<Rightarrow> string" where
  "status_line_v01 E ser mode dry =
     (let s = (case ser of None \<Rightarrow> ''(none)'' | Some x \<Rightarrow> if x = [] then ''(none)'' else x);
          run_state = (if dry then NEON_YELLOW @ ''DRY'' @ RESET else NEON_GREEN @ ''LIVE'' @ RESET)
      in GRAY @ ''serial:'' @ RESET @ '' '' @ NEON_CYAN @ s @ RESET @ '' ''
         @ GRAY @ ''mode:'' @ RESET @ '' '' @ NEON_PINK @ mode @ RESET @ '' ''
         @ GRAY @ ''run:'' @ RESET @ '' '' @ run_state @ ''  '' @ GRAY @ now_clock E @ RESET)"

definition action_report_v01 :: "env \<Rightarrow> Ctx \<Rightarrow> unit io" where
  "action_report_v01 E ctx =
     (if \<not> has_serial ctx
      then py_print ''No ADB serial selected (device must not be authorized and in Android).''
      else
        io_seq (mkdir (REPORT_DIR E))
       (let ts = now_stamp E;
            path = path_child (REPORT_DIR E) (''report-'' @ serial_text ctx @ ''-'' @ ts @ ''.txt'')
        in
        io_bind (getprop E ctx ''ro.product.model'') (\<lambda>model.
        io_bind (getprop E ctx ''ro.build.version.release'') (\<lambda>android.
        io_bind (getprop E ctx ''ro.build.fingerprint'') (\<lambda>fp.
        io_bind (getprop E ctx ''ro.boot.verifiedbootstate'') (\<lambda>vbs.
        io_bind (getprop E ctx ''ro.boot.flash.locked'') (\<lambda>locked.
        io_bind (getprop E ctx ''ro.boot.vbmeta.device_state'') (\<lambda>vbmeta.
        io_bind (run E (adb_base ctx @ [''shell'', ''id'']) True 10) (\<lambda>ident.
        let lines = [''serial: '' @ serial_text ctx,
                     ''when:   '' @ now_iso E,
                     '''',
                     ''model: '' @ model,
                     ''android: '' @ android,
                     ''fingerprint: '' @ fp,
                     ''verifiedbootstate: '' @ vbs,
                     ''flash.locked: '' @ locked,
                     ''vbmeta.device_state: '' @ vbmeta,
                     '''',
                     ''id:'',
                     str_strip ident]
        in io_seq (write_text path (str_join newline lines @ newline))
                  (py_print (''Wrote: '' @ path)))))))))))"

definition logcat_menu_lines_v01 :: "string list" where
  "logcat_menu_lines_v01 =
     [NEON_CYAN @ ''1'' @ RESET @ '') Dump last 200 lines (all buffers)'',
      NEON_CYAN @ ''2'' @ RESET @ '') Live follow (all buffers)'',
      NEON_CYAN @ ''3'' @ RESET @ '') Crashes only (AndroidRuntime)'',
      NEON_CYAN @ ''4'' @ RESET @ '') SELinux denials (avc) [host grep]'',
      NEON_CYAN @ ''5'' @ RESET @ '') Filter by tag'',
      NEON_CYAN @ ''6'' @ RESET @ '') Filter by regex (grep -E on host)'',
      NEON_CYAN @ ''7'' @ RESET @ '') Save dump to file'',
      NEON_CYAN @ ''8'' @ RESET @ '') Clear logcat buffers (confirm)'',
      NEON_CYAN @ ''b'' @ RESET @ '') Back'']"

definition logcat_build_v01 :: "env \<Rightarrow> Ctx \<Rightarrow> string \<Rightarrow> (string list \<times> string \<times> string) option io" where
  \<comment> \<open>the \<open>if\<close>/\<open>elif\<close> chain under the comment \<open>Build the logcat command\<close>: the command,
      the pattern of choice 6 and the output path of choice 7; \<open>None\<close> is \<open>return\<close>\<close>
  "logcat_build_v01 E ctx choice =
     (if choice = ''1'' then
        io_ret (Some (adb_base ctx @ [''logcat'', ''-b'', ''all'', ''-d'', ''-t'', ''200'', ''-v'', ''time''], [], []))
      else if choice = ''2'' then
        io_ret (Some (adb_base ctx @ [''logcat'', ''-b'', ''all'', ''-v'', ''time''], [], []))
      else if choice = ''3'' then
        io_ret (Some (adb_base ctx @ [''logcat'', ''-v'', ''time'', ''AndroidRuntime:E'', ''*:S''], [], []))
      else if choice = ''4'' then
        io_ret (Some (adb_base ctx @ [''logcat'', ''-b'', ''all'', ''-d'', ''-v'', ''time''], [], []))
      else if choice = ''5'' then
        io_bind (py_input ''Tag (e.g. ActivityManager): '') (\<lambda>raw_tag.
        let tag = str_strip raw_tag in
        if tag = [] then io_ret None
        else io_ret (Some (adb_base ctx @ [''logcat'', ''-b'', ''all'', ''-d'', ''-v'', ''time'', tag @ '':V'', ''*:S''],
                           [], [])))
      else if choice = ''6'' then
        io_bind (py_input ''Regex (grep -E): '') (\<lambda>raw_regex.
        let regex = str_strip raw_regex in
        if regex = [] then io_ret None
        else io_ret (Some (adb_base ctx @ [''logcat'', ''-b'', ''all'', ''-d'', ''-v'', ''time''], regex, [])))
      else if choice = ''7'' then
        io_seq (mkdir (LOG_DIR E))
        (let ts = now_stamp E;
             out_path = path_child (LOG_DIR E) (''logcat-'' @ serial_text ctx @ ''-'' @ ts @ ''.txt'') in
         io_ret (Some (adb_base ctx @ [''logcat'', ''-b'', ''all'', ''-d'', ''-v'', ''time''], [], out_path)))
      else if choice = ''8'' then
        io_bind (py_input ''This clears log buffers. Type YES to continue: '') (\<lambda>raw_confirm.
        let confirm = str_strip raw_confirm in
        if confirm \<noteq> ''YES'' then io_ret None
        else io_ret (Some (adb_base ctx @ [''logcat'', ''-b'', ''all'', ''-c''], [], [])))
      else io_ret None)"

definition action_logcat_lab_v01 :: "env \<Rightarrow> Ctx \<Rightarrow> unit io" where
  "action_logcat_lab_v01 E ctx =
     (if \<not> has_serial ctx
      then io_seq (py_print (NEON_RED @ ''No ADB serial selected.'' @ RESET)) pause
      else
        io_seq (py_print [])
       (io_seq (py_print (box logcat_menu_lines_v01 (NEON_PINK @ ''LOGCAT LAB'' @ RESET)))
       (io_bind (py_input (NEON_PINK @ ''> '' @ RESET)) (\<lambda>raw.
        let choice = str_lower (str_strip raw) in
        if choice = ''b'' then io_ret ()
        else
          io_bind (logcat_build_v01 E ctx choice) (\<lambda>built.
          case built of
            None \<Rightarrow> io_ret ()
          | Some (cmd, regex, out_path) \<Rightarrow>
              if dry_run ctx then io_seq (say_dry_run cmd) pause
              else
                io_bind (run E cmd True 60) (\<lambda>out.
                let out = (if choice = ''4''
                           then str_join newline (filter (\<lambda>ln. str_in ''avc:'' (str_lower ln)) (str_splitlines out))
                           else out) in
                io_bind (if choice = ''6'' then
                           (case re_compile E regex of
                              Inl e \<Rightarrow> io_seq (py_print (NEON_RED @ ''Bad regex: '' @ e @ RESET))
                                              (io_seq pause (io_ret None))
                            | Inr rx \<Rightarrow> io_ret (Some (str_join newline (filter rx (str_splitlines out)))))
                         else io_ret (Some out)) (\<lambda>filtered.
                case filtered of
                  None \<Rightarrow> io_ret ()
                | Some out \<Rightarrow>
                    io_seq (if choice = ''7''
                            then io_seq (write_text out_path out) (py_print (''Wrote: '' @ out_path))
                            else py_print out)
                           pause)))))))"

definition menu_lines_v01 :: "string list" where
  "menu_lines_v01 =
     [NEON_CYAN @ ''1'' @ RESET @ '' Status (adb/fastboot devices)'',
      NEON_CYAN @ ''2'' @ RESET @ '' Write quick report'',
      NEON_CYAN @ ''3'' @ RESET @ '' Reboot bootloader'',
      NEON_CYAN @ ''q'' @ RESET @ '' Quit'',
      NEON_CYAN @ ''4'' @ RESET @ '' Logcat Lab'',
      NEON_CYAN @ ''d'' @ RESET @ '' Toggle dry-run'']"

definition menu_body_v01 :: "env \<Rightarrow> Ctx \<Rightarrow> (Ctx \<times> bool) io" where
  \<comment> \<open>one iteration of the loop of this variant, which has no \<open>try\<close>\<close>
  "menu_body_v01 E ctx =
     io_seq clear
    (io_seq (py_print banner_v01)
    (io_seq (py_print (status_line_v01 E (serial ctx) ''adb'' (dry_run ctx)))
    (io_seq (py_print [])
    (io_seq (py_print (box menu_lines_v01 (NEON_PINK @ ''MAIN MENU'' @ RESET)))
    (io_bind (py_input (NEON_PINK @ ''> '' @ RESET)) (\<lambda>raw.
     let choice = str_lower (str_strip raw) in
     if choice = ''d'' then io_ret (ctx\<lparr>dry_run := \<not> dry_run ctx\<rparr>, True)
     else if choice = ''q'' then io_ret (ctx, False)
     else
       io_seq (if choice = ''1'' then action_status E ctx
               else if choice = ''2'' then action_report_v01 E ctx
               else if choice = ''3'' then
                 (if \<not> has_serial ctx then py_print ''No ADB serial selected.''
                  else
                    (let cmd = adb_base ctx @ [''reboot'', ''bootloader''] in
                     io_seq (py_print (''Running: '' @ str_join '' '' cmd))
                            (io_bind (run E cmd True 30) (\<lambda>out. io_ret ()))))
               else if choice = ''4'' then action_logcat_lab_v01 E ctx
               else io_seq (py_print ''Unknown choice.'')
                           (io_bind (py_input (GRAY @ ''Press Enter to continue...'' @ RESET))
                                    (\<lambda>line. io_ret ())))
              (io_ret (ctx, True))))))))"

fun menu_iterate_v01 :: "nat \<Rightarrow> env \<Rightarrow> Ctx \<Rightarrow> (Ctx \<times> bool) io" where
  "menu_iterate_v01 0 E ctx = io_ret (ctx, True)"
| "menu_iterate_v01 (Suc n) E ctx =
     io_bind (menu_body_v01 E ctx) (\<lambda>(ctx', running).
     if running then menu_iterate_v01 n E ctx' else io_ret (ctx', False))"

definition menu_v01 :: "nat \<Rightarrow> env \<Rightarrow> string option \<Rightarrow> (Ctx \<times> bool) io" where
  "menu_v01 n E arg = io_bind (menu_start E arg) (\<lambda>ctx. menu_iterate_v01 n E ctx)"

section \<open>Sample environments\<close>

definition two_devices :: string where
  \<comment> \<open>a device list with two ready devices and one unauthorized device\<close>
  "two_devices = ''List of devices attached'' @ newline
                 @ ''AAA111'' @ [CHR 0x09] @ ''device'' @ newline
                 @ ''CCC333'' @ [CHR 0x09] @ ''unauthorized'' @ newline
                 @ ''BBB222'' @ [CHR 0x09] @ ''device usb:1-1'' @ newline"

definition sample_env :: "int \<Rightarrow> nat \<Rightarrow> env" where
  \<comment> \<open>every child exits with status \<open>rc\<close> after \<open>secs\<close> seconds; \<open>adb devices -l\<close> prints
      \<^const>\<open>two_devices\<close> and every other command prints one line; the only pattern the
      regular-expression compiler rejects is an unclosed parenthesis, and any other
      pattern is searched for literally\<close>
  "sample_env rc secs =
     \<lparr>child = (\<lambda>cmd. \<lparr>returncode = rc,
                       stdout = (if cmd = [''adb'', ''devices'', ''-l''] then two_devices
                                 else ''Pixel'' @ newline),
                       stderr = [],
                       seconds = secs\<rparr>),
      now_stamp = ''20260102-030405'',
      now_clock = ''03:04:05'',
      now_iso = ''2026-01-02T03:04:05.000006'',
      home = ''/home/op'',
      expanduser = (\<lambda>p. p),
      path_exists = (\<lambda>p. True),
      int_max_str_digits = 4300,
      re_compile = (\<lambda>p. if p = ''('' then Inl ''missing ), unterminated subpattern at position 0''
                         else Inr (str_in p))\<rparr>"

definition bound_ctx :: "bool \<Rightarrow> Ctx" where
  \<comment> \<open>a session bound to the device \<open>ABC123\<close>, with the given dry-run flag\<close>
  "bound_ctx dry = \<lparr>serial = Some ''ABC123'', dry_run = dry, verbose = True\<rparr>"

definition typed :: "string list \<Rightarrow> world" where
  \<comment> \<open>a fresh terminal on which the operator will type the given lines\<close>
  "typed ls = \<lparr>stdin = ls, trace = []\<rparr>"

definition query_ok :: "env \<Rightarrow> string list \<Rightarrow> nat \<Rightarrow> bool" where
  \<comment> \<open>the command exits with status 0 within the time limit\<close>
  "query_ok E cmd limit = (seconds (child E cmd) \<le> limit \<and> returncode (child E cmd) = 0)"

section \<open>Predicates on what an action does\<close>

definition appends :: "(event \<Rightarrow> bool) \<Rightarrow> 'a io \<Rightarrow> bool" where
  \<comment> \<open>whatever the terminal and the outcome, the action only adds events that satisfy
      \<open>P\<close> to the trace\<close>
  "appends P m = (\<forall>w. \<exists>es. trace (snd (m w)) = trace w @ es \<and> list_all P es)"

definition returns_untouched :: "world \<Rightarrow> string list \<Rightarrow> (error + unit) \<times> world \<Rightarrow> bool" where
  \<comment> \<open>the action has returned normally from \<open>w\<close>, leaving \<open>rest\<close> to be typed, without
      starting a child process and without writing a file\<close>
  "returns_untouched w rest r =
     (fst r = Inr () \<and> stdin (snd r) = rest
      \<and> children (snd r) = children w \<and> writes (snd r) = writes w)"

section \<open>What the property report asks for\<close>







section \<open>Errors caused by child processes\<close>

fun is_child_failure :: "error \<Rightarrow> bool" where
  \<comment> \<open>the two errors a child process can cause: non-zero exit in strict mode, and timeout\<close>
  "is_child_failure (CalledProcessError rc cmd out err) = True"
| "is_child_failure (TimeoutExpired cmd) = True"
| "is_child_failure e = False"

section \<open>Properties of the menu renderer\<close>

lemma fold_max_ge_init: "a \<le> fold max xs (a::nat)"
  by (induction xs arbitrary: a) (auto intro: order_trans [OF max.cobounded2])

lemma fold_max_ge_elem: "x \<in> set xs \<Longrightarrow> x \<le> fold max xs (a::nat)"
proof (induction xs arbitrary: a)
  case Nil
  then show ?case by simp
next
  case (Cons y ys)
  show ?case
  proof (cases "x = y")
    case True
    have "y \<le> max y a" by simp
    also have "\<dots> \<le> fold max ys (max y a)" by (rule fold_max_ge_init)
    finally show ?thesis using True by simp
  next
    case False
    with Cons show ?thesis by simp
  qed
qed

lemma fold_max_mem: "fold max xs (a::nat) = a \<or> fold max xs a \<in> set xs"
proof (induction xs arbitrary: a)
  case Nil
  then show ?case by simp
next
  case (Cons y ys)
  from Cons [of "max y a"] show ?case by (auto simp: max_def split: if_splits)
qed

lemma box_width_ge_line:
  assumes "s \<in> set lines"
  shows "length s \<le> box_width lines title"
proof -
  from assms have "length s \<in> set (map length lines @ [length title])" by simp
  then have "length s \<le> fold max (map length lines @ [length title]) 0"
    by (rule fold_max_ge_elem)
  moreover from assms have "lines \<noteq> []" by auto
  ultimately show ?thesis unfolding box_width_def by simp
qed

lemma box_width_ge_title: "length title \<le> box_width lines title"
proof (cases "lines \<noteq> [] \<or> title \<noteq> []")
  case True
  have "length title \<in> set (map length lines @ [length title])" by simp
  then have "length title \<le> fold max (map length lines @ [length title]) 0"
    by (rule fold_max_ge_elem)
  with True show ?thesis unfolding box_width_def by simp
next
  case False
  then show ?thesis by (simp add: box_width_def)
qed

lemma box_width_attained:
  "box_width lines title = length title \<or> (\<exists>s \<in> set lines. box_width lines title = length s)"
proof (cases "lines \<noteq> [] \<or> title \<noteq> []")
  case True
  then have w: "box_width lines title = fold max (map length lines @ [length title]) 0"
    by (simp add: box_width_def)
  from fold_max_mem [of "map length lines @ [length title]" 0]
  show ?thesis unfolding w using True by auto
next
  case False
  then show ?thesis by (simp add: box_width_def)
qed

lemma str_ljust_length: "length s \<le> w \<Longrightarrow> length (str_ljust s w f) = w"
  by (simp add: str_ljust_def)

lemma box_rows_length: "length (box_rows lines title) = length lines + 2"
  by (simp add: box_rows_def Let_def)

lemma box_rows_row_length:
  assumes "r \<in> set (box_rows lines title)"
  shows "length r = box_width lines title + 4"
proof -
  have t: "length title \<le> box_width lines title"
    by (rule box_width_ge_title)
  have l: "\<And>s. s \<in> set lines \<Longrightarrow> length s \<le> box_width lines title"
    by (rule box_width_ge_line)
  from assms t show ?thesis
    by (auto simp: box_rows_def Let_def str_ljust_def dest: l split: if_splits)
qed

lemma box_rows_nth:
  assumes "i < length lines"
  shows "box_rows lines title ! Suc i =
           ''| '' @ lines ! i @ replicate (box_width lines title - length (lines ! i)) CHR '' '' @ '' |''"
  using assms by (simp add: box_rows_def Let_def nth_append str_ljust_def)

lemma box_rows_top:
  "hd (box_rows lines title) =
     (if title = [] then ''+'' @ replicate (box_width lines title + 2) CHR ''-'' @ ''+''
      else ''+ '' @ title @ replicate (box_width lines title + 1 - length title) CHR ''-'' @ ''+'')"
  by (simp add: box_rows_def Let_def str_ljust_def)

lemma box_rows_bottom:
  "last (box_rows lines title) = ''+'' @ replicate (box_width lines title + 2) CHR ''-'' @ ''+''"
  by (simp add: box_rows_def Let_def)

lemma box_empty: "box [] [] = ''+--+'' @ [CHR 0x0A] @ ''+--+''"
  by (simp add: box_def box_rows_def box_width_def Let_def)

text \<open>
  C8. For every sequence of labels and every title, the menu renderer returns a bordered
  block: a top row, one row per label, a bottom row; every row is \<open>width + 4\<close> characters
  long, where \<open>width\<close> is the length of the longest label or of the title; each label is
  padded with spaces on the right inside \<open>| \<dots> |\<close>; no labels and no title give the box
  \<open>+--+\<close> over \<open>+--+\<close>. The renderer is a function of its two arguments only.
\<close>

theorem box_bordered_fixed_width:
  "length (box_rows lines title) = length lines + 2
   \<and> (\<forall>r \<in> set (box_rows lines title). length r = box_width lines title + 4)
   \<and> (\<forall>s \<in> set lines. length s \<le> box_width lines title)
   \<and> length title \<le> box_width lines title
   \<and> (box_width lines title = length title
        \<or> (\<exists>s \<in> set lines. box_width lines title = length s))
   \<and> (\<forall>i < length lines. box_rows lines title ! Suc i =
          ''| '' @ lines ! i @ replicate (box_width lines title - length (lines ! i)) CHR '' '' @ '' |'')
   \<and> hd (box_rows lines title) =
         (if title = [] then ''+'' @ replicate (box_width lines title + 2) CHR ''-'' @ ''+''
          else ''+ '' @ title @ replicate (box_width lines title + 1 - length title) CHR ''-'' @ ''+'')
   \<and> last (box_rows lines title) = ''+'' @ replicate (box_width lines title + 2) CHR ''-'' @ ''+''
   \<and> box lines title = str_join [CHR 0x0A] (box_rows lines title)
   \<and> box [] [] = ''+--+'' @ [CHR 0x0A] @ ''+--+''"
  using box_rows_length [of lines title] box_rows_row_length [of _ lines title]
    box_width_ge_line [of _ lines title] box_width_ge_title [of title lines]
    box_width_attained [of lines title] box_rows_nth [of _ lines title]
    box_rows_top [of lines title] box_rows_bottom [of lines title] box_empty
  by (simp only: box_def) blast

theorem box_bordered_fixed_width_witness:
  "''| c  |'' \<in> set (box_rows [''ab'', ''c''] ''T'')
   \<and> length ''| c  |'' = box_width [''ab'', ''c''] ''T'' + 4
   \<and> ''ab'' \<in> set [''ab'', ''c''] \<and> length ''ab'' \<le> box_width [''ab'', ''c''] ''T''
   \<and> (1::nat) < length [''ab'', ''c'']
   \<and> box_rows [''ab'', ''c''] ''T'' ! Suc 1 = ''| c  |''
   \<and> box [''ab'', ''c''] ''T'' = ''+ T--+'' @ [CHR 0x0A] @ ''| ab |'' @ [CHR 0x0A] @ ''| c  |'' @ [CHR 0x0A] @ ''+----+''"
  using box_bordered_fixed_width [of "[''ab'', ''c'']" "''T''"]
  by (simp add: box_def box_rows_def box_width_def str_ljust_def)

section \<open>Properties of the device-list parser\<close>

lemma splitlines_line_then_rest:
  assumes "\<forall>c \<in> set l. \<not> py_islinebreak c"
  shows "str_splitlines (l @ CHR 0x0A # rest) = l # str_splitlines rest"
  using assms
proof (induction l)
  case Nil
  show ?case by (cases rest) (simp_all add: py_islinebreak_def)
next
  case (Cons c l)
  then show ?case by simp
qed

lemma splitlines_single_line:
  assumes "\<forall>c \<in> set l. \<not> py_islinebreak c"
  shows "str_splitlines l = (if l = [] then [] else [l])"
  using assms
proof (induction l)
  case Nil
  show ?case by simp
next
  case (Cons c l)
  then show ?case by (cases "l = []") simp_all
qed

lemma splitlines_join_filter:
  assumes "\<forall>ln \<in> set ls. \<forall>c \<in> set ln. \<not> py_islinebreak c" and "\<not> P []"
  shows "filter P (str_splitlines (str_join [CHR 0x0A] ls)) = filter P ls"
  using assms
proof (induction "[CHR 0x0A]" ls rule: str_join.induct)
  case 1
  show ?case by simp
next
  case (2 x)
  then show ?case by (simp add: splitlines_single_line)
next
  case (3 x y ys)
  then show ?case by (simp add: splitlines_line_then_rest)
qed

lemma split_drop_leading: "str_split (dropWhile py_isspace s) = str_split s"
  by (induction s) simp_all

lemma split_snoc_space:
  assumes "py_isspace c"
  shows "str_split (s @ [c]) = str_split s"
proof (induction s)
  case Nil
  from assms show ?case by simp
next
  case (Cons a s)
  have h: "(s @ [c] = [] \<or> py_isspace (hd (s @ [c]))) = (s = [] \<or> py_isspace (hd s))"
    using assms by (cases s) simp_all
  show ?case by (simp only: append_Cons str_split.simps h Cons.IH)
qed

lemma split_append_spaces: "\<forall>c \<in> set ws. py_isspace c \<Longrightarrow> str_split (s @ ws) = str_split s"
proof (induction ws rule: rev_induct)
  case Nil
  show ?case by simp
next
  case (snoc c ws)
  have "str_split (s @ ws @ [c]) = str_split ((s @ ws) @ [c])" by simp
  also have "\<dots> = str_split (s @ ws)" using snoc.prems by (intro split_snoc_space) simp
  also have "\<dots> = str_split s" using snoc by simp
  finally show ?case .
qed

lemma split_drop_trailing: "str_split (rev (dropWhile py_isspace (rev s))) = str_split s"
proof -
  have "rev (dropWhile py_isspace (rev s)) @ rev (takeWhile py_isspace (rev s))
          = rev (takeWhile py_isspace (rev s) @ dropWhile py_isspace (rev s))"
    by (simp only: rev_append)
  also have "\<dots> = s" by (simp only: takeWhile_dropWhile_id rev_rev_ident)
  finally have s: "rev (dropWhile py_isspace (rev s)) @ rev (takeWhile py_isspace (rev s)) = s" .
  have "\<forall>c \<in> set (rev (takeWhile py_isspace (rev s))). py_isspace c"
    by (auto dest: set_takeWhileD)
  then have "str_split (rev (dropWhile py_isspace (rev s)) @ rev (takeWhile py_isspace (rev s)))
               = str_split (rev (dropWhile py_isspace (rev s)))"
    by (rule split_append_spaces)
  then show ?thesis by (simp only: s)
qed

lemma split_strip: "str_split (str_strip s) = str_split s"
  unfolding str_strip_def by (simp only: split_drop_trailing split_drop_leading)

lemma split_blank: "str_strip s = [] \<Longrightarrow> str_split s = []"
  using split_strip [of s] by simp

lemma ready_identifiers_concat: "ready_identifiers rest = concat (map ready_of_line rest)"
  by (induction rest) (auto simp: ready_identifiers_def ready_of_line_def Let_def split: list.splits)

lemma ready_of_line_blank: "str_strip ln = [] \<Longrightarrow> ready_of_line ln = []"
  by (simp add: ready_of_line_def split_blank)

lemma concat_ready_filter:
  "concat (map ready_of_line (filter (\<lambda>ln. str_strip ln \<noteq> []) ls)) = concat (map ready_of_line ls)"
  by (induction ls) (simp_all add: ready_of_line_blank)

lemma ai_line: "(let parts = str_split ln in
                            if length parts \<ge> 2 \<and> parts ! 1 = ''device'' then [parts ! 0] else [])
                         = ready_of_line ln"
  by (simp only: ready_of_line_def)

lemma v12_line: "(let parts = str_split ln in
                            if length parts < 2 then []
                            else (let serial = parts ! 0; state = parts ! 1 in
                                  if state = ''device'' then [serial] else [])) = ready_of_line ln"
  by (auto simp: ready_of_line_def Let_def)

lemma v01_line: "(let parts = str_split ln in
                            if parts = [] then []
                            else (let serial = parts ! 0;
                                      state = (if length parts > 1 then parts ! 1 else '''') in
                                  if state = ''device'' then [serial] else [])) = ready_of_line ln"
proof (cases "str_split ln")
  case Nil
  then show ?thesis by (simp add: ready_of_line_def)
next
  case (Cons a l)
  then show ?thesis by (cases l) (simp_all add: ready_of_line_def)
qed

lemma stripped_lines_of_listing:
  assumes "str_strip header \<noteq> []"
    and "\<forall>ln \<in> set (header # rest). \<forall>c \<in> set ln. \<not> py_islinebreak c"
  shows "drop 1 (map str_strip (filter (\<lambda>ln. str_strip ln \<noteq> [])
                  (str_splitlines (str_join [CHR 0x0A] (header # rest)))))
         = map str_strip (filter (\<lambda>ln. str_strip ln \<noteq> []) rest)"
proof -
  have "filter (\<lambda>ln. str_strip ln \<noteq> []) (str_splitlines (str_join [CHR 0x0A] (header # rest)))
          = filter (\<lambda>ln. str_strip ln \<noteq> []) (header # rest)"
    using assms(2) by (intro splitlines_join_filter) (simp_all add: str_strip_def)
  with assms(1) show ?thesis by simp
qed

lemma ready_of_line_strip: "ready_of_line (str_strip ln) = ready_of_line ln"
  by (simp add: ready_of_line_def split_strip)

lemma ready_of_stripped: "concat (map (\<lambda>ln. ready_of_line (str_strip ln)) ls) = concat (map ready_of_line ls)"
  by (simp only: ready_of_line_strip)

text \<open>
  C4. For a device-list output made of a header line followed by further lines, the
  parser (in each of the three variants of the program) returns exactly the first
  whitespace-separated token of every line whose second token is \<open>device\<close>, in the order
  of the lines. The header is a line with some non-whitespace text, and the lines are
  joined by line feeds.
\<close>

theorem parse_adb_devices_ready:
  assumes "str_strip header \<noteq> []"
    and "\<forall>ln \<in> set (header # rest). \<forall>c \<in> set ln. \<not> py_islinebreak c"
  shows "parse_adb_devices (str_join [CHR 0x0A] (header # rest)) = ready_identifiers rest
       \<and> parse_adb_devices_v12 (str_join [CHR 0x0A] (header # rest)) = ready_identifiers rest
       \<and> parse_adb_devices_v01 (str_join [CHR 0x0A] (header # rest)) = ready_identifiers rest"
proof -
  let ?out = "str_join [CHR 0x0A] (header # rest)"
  let ?nb = "filter (\<lambda>ln. str_strip ln \<noteq> []) rest"
  have r: "concat (map ready_of_line (map str_strip ?nb)) = ready_identifiers rest"
    by (simp add: ready_identifiers_concat concat_ready_filter ready_of_stripped o_def)
  have a: "parse_adb_devices ?out = concat (map ready_of_line (map str_strip ?nb))"
    unfolding parse_adb_devices_def stripped_lines_of_listing [OF assms] Let_def
    by (simp only: ai_line [unfolded Let_def])
  have b: "parse_adb_devices_v12 ?out = concat (map ready_of_line (map str_strip ?nb))"
    unfolding parse_adb_devices_v12_def stripped_lines_of_listing [OF assms] v12_line Let_def
    by (simp only: v12_line [unfolded Let_def])
  have c: "parse_adb_devices_v01 ?out = concat (map ready_of_line (map str_strip ?nb))"
    unfolding parse_adb_devices_v01_def stripped_lines_of_listing [OF assms] Let_def
    by (simp only: v01_line [unfolded Let_def])
  from a b c r show ?thesis by simp
qed

text \<open>
  The end-to-end example: the header \<open>List of devices attached\<close> followed by
  \<open>ABC123<TAB>device<TAB>usb:1-1\<close> yields \<open>["ABC123"]\<close>.
\<close>

theorem parse_adb_devices_ready_witness:
  "parse_adb_devices (''List of devices attached'' @ [CHR 0x0A] @ ''ABC123'' @ [CHR 0x09] @ ''device'' @ [CHR 0x09] @ ''usb:1-1'') = [''ABC123'']"
  using parse_adb_devices_ready [of "''List of devices attached''" "[''ABC123'' @ [CHR 0x09] @ ''device'' @ [CHR 0x09] @ ''usb:1-1'']"]
  by (simp add: str_strip_def py_isspace_def py_islinebreak_def ready_identifiers_def)

section \<open>Properties of the command runner and the device selector\<close>

lemma run_ok:
  assumes "query_ok E cmd limit"
  shows "run E cmd True limit w = (Inr (stdout (child E cmd)), w\<lparr>trace := trace w @ [Ran cmd]\<rparr>)"
  using assms by (simp add: run_def run_capture_def io_bind_def io_ret_def query_ok_def Let_def)

lemma print_all_result: "print_all ls w = (Inr (), w\<lparr>trace := trace w @ map Printed ls\<rparr>)"
  by (induction ls arbitrary: w) (simp_all add: io_ret_def io_seq_def io_bind_def py_print_def emit_def)

lemma parse_two_devices: "parse_adb_devices two_devices = [''AAA111'', ''BBB222'']"
  by (simp add: two_devices_def newline_def parse_adb_devices_def str_strip_def py_isspace_def
      py_islinebreak_def)

text \<open>No ready device: no selection, and the operator is not asked.\<close>

lemma pick_adb_serial_none:
  assumes "query_ok E [''adb'', ''devices'', ''-l''] 10"
    and "parse_adb_devices (stdout (child E [''adb'', ''devices'', ''-l''])) = []"
  shows "pick_adb_serial E w = (Inr None, w\<lparr>trace := trace w @ [Ran [''adb'', ''devices'', ''-l'']]\<rparr>)"
  using assms(2) by (simp add: pick_adb_serial_def run_ok [OF assms(1)] io_bind_def io_ret_def)

text \<open>One ready device: it is selected, and the operator is not asked.\<close>

lemma pick_adb_serial_single:
  assumes "query_ok E [''adb'', ''devices'', ''-l''] 10"
    and "parse_adb_devices (stdout (child E [''adb'', ''devices'', ''-l''])) = [s]"
  shows "pick_adb_serial E w = (Inr (Some s), w\<lparr>trace := trace w @ [Ran [''adb'', ''devices'', ''-l'']]\<rparr>)"
  using assms(2) by (simp add: pick_adb_serial_def run_ok [OF assms(1)] io_bind_def io_ret_def)

text \<open>
  Several ready devices: what the selector returns for each line the operator can type.
  A line that \<open>isdigit()\<close> accepts and \<open>int()\<close> rejects raises \<open>ValueError\<close>.
\<close>

lemma pick_adb_serial_prompted:
  assumes "query_ok E [''adb'', ''devices'', ''-l''] 10"
    and "parse_adb_devices (stdout (child E [''adb'', ''devices'', ''-l''])) = serials"
    and "length serials > 1"
    and "stdin w = raw # rest"
  shows "fst (pick_adb_serial E w) =
           (if \<not> str_isdigit (str_strip raw) then Inr None
            else case py_int (int_max_str_digits E) (str_strip raw) of
                   None \<Rightarrow> Inl (ValueError (str_strip raw))
                 | Some k \<Rightarrow> Inr (if 1 \<le> k \<and> k \<le> int (length serials)
                                   then Some (serials ! nat (k - 1)) else None))"
proof -
  from assms(3) have ne: "serials \<noteq> []" "length serials \<noteq> 1" by auto
  show ?thesis
    using assms(2,4) ne
    by (simp add: pick_adb_serial_def run_ok [OF assms(1)] io_bind_def io_seq_def io_ret_def io_raise_def
        py_print_def emit_def print_all_result py_input_def Let_def split: option.splits)
qed

text \<open>
  C5. With two ready devices attached, the operator answers the selection prompt with
  the single character \<open>U+00B2\<close> (superscript two). The claim asks for no selection; the
  selector raises \<open>ValueError\<close>: \<open>isdigit()\<close> accepts the character and \<open>int()\<close> does not.
\<close>

theorem pick_adb_serial_superscript_raises:
  "fst (pick_adb_serial (sample_env 0 0) (typed [[CHR 0xB2]])) = Inl (ValueError [CHR 0xB2])"
  by (simp add: pick_adb_serial_def run_ok query_ok_def sample_env_def parse_two_devices typed_def
      io_bind_def io_seq_def io_ret_def io_raise_def py_print_def emit_def py_input_def Let_def
      str_strip_def py_isspace_def str_isdigit_def py_isdigit_def py_isdecimal_def py_int_def
      int_isspace_def int_unsigned_def)

section \<open>Properties of the screen-recording duration\<close>

lemma screenrecord_runs_with_duration:
  assumes "has_serial ctx" and "\<not> dry_run ctx" and "stdin w = raw # rest"
  shows "Ran (adb_base ctx @ [''shell'', ''screenrecord'', ''--time-limit'',
                             py_str_int (screenrecord_duration E raw),
                             ''/sdcard/workbench-record-'' @ now_stamp E @ ''.mp4''])
          \<in> set (trace (snd (action_screenrecord E ctx w)))"
  using assms
  by (auto simp: action_screenrecord_def require_serial_def io_bind_def io_seq_def io_ret_def
      mkdir_def emit_def py_input_def py_print_def run_capture_def Let_def pause_def
      split: prod.splits sum.splits list.splits)

text \<open>
  C7. Whatever the operator types at the duration prompt, the duration used lies between
  1 and 180: a line that \<open>int()\<close> reads as \<open>n\<close> gives \<open>n\<close> clamped into that range, and any
  other line (the empty one included) gives 15. That duration is the \<open>--time-limit\<close> of
  the recording command the handler runs.
\<close>

theorem screenrecord_duration_clamped:
  "1 \<le> screenrecord_duration E raw \<and> screenrecord_duration E raw \<le> 180
   \<and> (py_int (int_max_str_digits E) (str_strip raw) = Some n
        \<longrightarrow> screenrecord_duration E raw = max 1 (min n 180))
   \<and> (py_int (int_max_str_digits E) (str_strip raw) = None \<longrightarrow> screenrecord_duration E raw = 15)
   \<and> (has_serial ctx \<and> \<not> dry_run ctx \<and> stdin w = raw # rest \<longrightarrow>
        Ran (adb_base ctx @ [''shell'', ''screenrecord'', ''--time-limit'',
                             py_str_int (screenrecord_duration E raw),
                             ''/sdcard/workbench-record-'' @ now_stamp E @ ''.mp4''])
          \<in> set (trace (snd (action_screenrecord E ctx w))))"
proof -
  have "py_int (int_max_str_digits E) [] = None" by (simp add: py_int_def)
  then have "1 \<le> screenrecord_duration E raw \<and> screenrecord_duration E raw \<le> 180
     \<and> (py_int (int_max_str_digits E) (str_strip raw) = Some n
          \<longrightarrow> screenrecord_duration E raw = max 1 (min n 180))
     \<and> (py_int (int_max_str_digits E) (str_strip raw) = None \<longrightarrow> screenrecord_duration E raw = 15)"
    by (auto simp: screenrecord_duration_def Let_def split: option.splits)
  with screenrecord_runs_with_duration [of ctx w raw rest E] show ?thesis by blast
qed

theorem screenrecord_duration_clamped_witness:
  "py_int (int_max_str_digits (sample_env 0 0)) (str_strip '' 500 '') = Some 500
   \<and> screenrecord_duration (sample_env 0 0) '' 500 '' = 180
   \<and> py_int (int_max_str_digits (sample_env 0 0)) (str_strip ''soon'') = None
   \<and> screenrecord_duration (sample_env 0 0) ''soon'' = 15
   \<and> has_serial (bound_ctx False) \<and> \<not> dry_run (bound_ctx False) \<and> stdin (typed [''7'']) = [''7'']
   \<and> Ran [''adb'', ''-s'', ''ABC123'', ''shell'', ''screenrecord'', ''--time-limit'', ''7'',
           ''/sdcard/workbench-record-20260102-030405.mp4'']
        \<in> set (trace (snd (action_screenrecord (sample_env 0 0) (bound_ctx False) (typed [''7'']))))"
proof -
  have a: "py_int (int_max_str_digits (sample_env 0 0)) (str_strip '' 500 '') = Some 500"
    by (simp add: py_int_def str_strip_def py_isspace_def int_isspace_def int_unsigned_def
        py_isdecimal_def sample_env_def)
  have b: "py_int (int_max_str_digits (sample_env 0 0)) (str_strip ''soon'') = None"
    by (simp add: py_int_def str_strip_def py_isspace_def int_isspace_def int_unsigned_def
        py_isdecimal_def sample_env_def)
  have c: "screenrecord_duration (sample_env 0 0) ''7'' = 7"
    by (simp add: screenrecord_duration_def py_int_def str_strip_def py_isspace_def int_isspace_def
        int_unsigned_def py_isdecimal_def sample_env_def)
  have d: "py_str_int 7 = ''7''"
    by (simp add: py_str_int_def str_nat.simps [of 7])
  have e: "has_serial (bound_ctx False) \<and> \<not> dry_run (bound_ctx False) \<and> stdin (typed [''7'']) = [''7'']"
    by (simp add: has_serial_def bound_ctx_def typed_def)
  have f: "adb_base (bound_ctx False) = [''adb'', ''-s'', ''ABC123'']"
    by (simp add: adb_base_def has_serial_def serial_text_def bound_ctx_def)
  have g: "now_stamp (sample_env 0 0) = ''20260102-030405''"
    by (simp add: sample_env_def)
  from screenrecord_duration_clamped [of "sample_env 0 0" "'' 500 ''" 500 "bound_ctx False" "typed [''7'']" "[]"]
    screenrecord_duration_clamped [of "sample_env 0 0" "''soon''" 0 "bound_ctx False" "typed [''7'']" "[]"]
    screenrecord_duration_clamped [of "sample_env 0 0" "''7''" 7 "bound_ctx False" "typed [''7'']" "[]"]
  show ?thesis
    using a b e by (simp add: c d f g)
qed

section \<open>Rules for what an action adds to the trace\<close>

lemmas io_defs = io_bind_def io_seq_def io_ret_def io_raise_def py_print_def emit_def py_input_def
  pause_def mkdir_def write_text_def say_dry_run_def

lemma appendsI:
  assumes "\<And>w. \<exists>es. trace (snd (m w)) = trace w @ es \<and> list_all P es"
  shows "appends P m"
  using assms by (simp add: appends_def)

lemma appendsD:
  assumes "appends P m"
  obtains es where "trace (snd (m w)) = trace w @ es" and "list_all P es"
  using assms unfolding appends_def by blast

lemma appends_ret: "appends P (io_ret x)"
  by (simp add: appends_def io_ret_def)

lemma appends_raise: "appends P (io_raise e)"
  by (simp add: appends_def io_raise_def)

lemma appends_emit: "P e \<Longrightarrow> appends P (emit e)"
  by (simp add: appends_def emit_def)

lemma appends_print: "P (Printed s) \<Longrightarrow> appends P (py_print s)"
  by (simp add: py_print_def appends_emit)

lemma appends_input: "P (Asked p) \<Longrightarrow> appends P (py_input p)"
  by (simp add: appends_def py_input_def split: list.splits)

lemma appends_bind:
  assumes "appends P m" and "\<And>x. appends P (f x)"
  shows "appends P (io_bind m f)"
proof (rule appendsI)
  fix w
  obtain r w1 where m: "m w = (r, w1)" by (cases "m w")
  from assms(1) obtain es where es: "trace (snd (m w)) = trace w @ es" "list_all P es"
    by (rule appendsD)
  show "\<exists>es. trace (snd (io_bind m f w)) = trace w @ es \<and> list_all P es"
  proof (cases r)
    case (Inl e)
    with m es show ?thesis by (simp add: io_bind_def)
  next
    case (Inr x)
    from assms(2) [of x] obtain fs where fs: "trace (snd (f x w1)) = trace w1 @ fs" "list_all P fs"
      by (rule appendsD)
    from m es fs Inr have "trace (snd (io_bind m f w)) = trace w @ (es @ fs)" "list_all P (es @ fs)"
      by (simp_all add: io_bind_def)
    then show ?thesis by blast
  qed
qed

lemma appends_seq: "appends P m \<Longrightarrow> appends P k \<Longrightarrow> appends P (io_seq m k)"
  by (simp add: io_seq_def appends_bind)

lemma appends_if:
  "(c \<Longrightarrow> appends P a) \<Longrightarrow> (\<not> c \<Longrightarrow> appends P b) \<Longrightarrow> appends P (if c then a else b)"
  by simp

lemma appends_option:
  "(x = None \<Longrightarrow> appends P a) \<Longrightarrow> (\<And>y. x = Some y \<Longrightarrow> appends P (f y))
     \<Longrightarrow> appends P (case x of None \<Rightarrow> a | Some y \<Rightarrow> f y)"
  by (cases x) simp_all

lemma appends_sum:
  "(\<And>y. x = Inl y \<Longrightarrow> appends P (f y)) \<Longrightarrow> (\<And>y. x = Inr y \<Longrightarrow> appends P (g y))
     \<Longrightarrow> appends P (case x of Inl y \<Rightarrow> f y | Inr y \<Rightarrow> g y)"
  by (cases x) simp_all

lemma appends_prod:
  "(\<And>a b. x = (a, b) \<Longrightarrow> appends P (f a b)) \<Longrightarrow> appends P (case x of (a, b) \<Rightarrow> f a b)"
  by (cases x) simp_all

lemma appends_pause: "P (Asked (GRAY @ ''Press Enter...'' @ RESET)) \<Longrightarrow> appends P pause"
  by (simp add: pause_def appends_bind appends_input appends_ret)

lemma appends_say_dry_run:
  "P (Printed (GRAY @ ''Dry-run. Would run:'' @ RESET @ '' '' @ str_join '' '' cmd)) \<Longrightarrow> appends P (say_dry_run cmd)"
  by (simp add: say_dry_run_def appends_print)

lemma appends_mkdir: "P (MadeDir d) \<Longrightarrow> appends P (mkdir d)"
  by (simp add: mkdir_def appends_emit)

lemma appends_write_text: "P (Wrote p t) \<Longrightarrow> appends P (write_text p t)"
  by (simp add: write_text_def appends_emit)

lemma appends_run_capture: "P (Ran cmd) \<Longrightarrow> appends P (run_capture E cmd c t)"
  by (simp add: appends_def run_capture_def Let_def)

lemma appends_run: "P (Ran cmd) \<Longrightarrow> appends P (run E cmd c t)"
  by (simp add: run_def appends_bind appends_run_capture appends_ret)

lemma appends_run_raw: "P (Ran cmd) \<Longrightarrow> appends P (run_raw E cmd)"
  by (simp add: appends_def run_raw_def)

lemma appends_run_stream: "P (Streamed cmd) \<Longrightarrow> appends P (run_stream E cmd)"
  by (simp add: appends_def run_stream_def)

lemma appends_print_all: "(\<And>s. P (Printed s)) \<Longrightarrow> appends P (print_all ls)"
  by (induction ls) (simp_all add: appends_ret appends_seq appends_print)

lemmas appends_rules = appends_ret appends_raise appends_print appends_input appends_bind appends_seq
  appends_if appends_option appends_sum appends_prod appends_pause appends_say_dry_run appends_mkdir
  appends_write_text appends_run appends_run_capture appends_run_raw appends_run_stream

lemma appends_children:
  assumes "appends (\<lambda>e. \<not> is_child e) m"
  shows "children (snd (m w)) = children w"
proof -
  from assms obtain es where "trace (snd (m w)) = trace w @ es" "list_all (\<lambda>e. \<not> is_child e) es"
    by (rule appendsD)
  then show ?thesis by (simp add: children_def list_all_iff)
qed

lemma appends_writes:
  assumes "appends (\<lambda>e. \<not> is_write e) m"
  shows "writes (snd (m w)) = writes w"
proof -
  from assms obtain es where "trace (snd (m w)) = trace w @ es" "list_all (\<lambda>e. \<not> is_write e) es"
    by (rule appendsD)
  then show ?thesis by (simp add: writes_def list_all_iff)
qed

section \<open>Dry-run\<close>

lemma bound_ctx_facts:
  "has_serial (bound_ctx dry)" "dry_run (bound_ctx dry) = dry"
  "adb_base (bound_ctx dry) = [''adb'', ''-s'', ''ABC123'']"
  "serial_text (bound_ctx dry) = ''ABC123''"
  by (simp_all add: bound_ctx_def has_serial_def adb_base_def serial_text_def)

lemma lower_l1: "str_lower (str_strip ''l1'') = ''l1''" "str_lower (str_strip ''1'') = ''1''"
  by (simp_all add: str_lower_def str_strip_def py_isspace_def lower_table_def)

text \<open>
  In \<open>android_workbench.py\<close> the dry-run gate of the logcat lab stands before the only
  call of \<open>run\<close>: under dry-run no sub-mode starts a child process.
\<close>

lemma logcat_build_v01_quiet: "appends (\<lambda>e. \<not> is_child e) (logcat_build_v01 E ctx choice)"
  unfolding logcat_build_v01_def Let_def
  by (intro appends_rules) simp_all

lemma logcat_lab_v01_dry_run_quiet:
  assumes "dry_run ctx"
  shows "children (snd (action_logcat_lab_v01 E ctx w)) = children w"
proof (rule appends_children)
  show "appends (\<lambda>e. \<not> is_child e) (action_logcat_lab_v01 E ctx)"
    unfolding action_logcat_lab_v01_def Let_def
    using assms by (intro appends_rules logcat_build_v01_quiet) simp_all
qed

text \<open>
  The handlers of \<open>android_workbench_ai.py\<close> whose dry-run gate stands before their first
  command start no child process under dry-run.
\<close>

lemma gated_handlers_dry_run_quiet:
  assumes "dry_run ctx"
  shows "children (snd (action_install_apk E ctx w)) = children w"
    and "children (snd (action_clear_app_data E ctx w)) = children w"
    and "children (snd (action_open_url E ctx w)) = children w"
    and "children (snd (action_screenshot E ctx w)) = children w"
    and "children (snd (action_screenrecord E ctx w)) = children w"
    and "children (snd (action_fastboot_getvar_all E ctx w)) = children w"
    and "children (snd (action_fastboot_reboot_menu E ctx w)) = children w"
proof -
  have "appends (\<lambda>e. \<not> is_child e) (action_install_apk E ctx)"
    unfolding action_install_apk_def Let_def require_serial_def
    using assms by (intro appends_rules) simp_all
  then show "children (snd (action_install_apk E ctx w)) = children w" by (rule appends_children)
  have "appends (\<lambda>e. \<not> is_child e) (action_clear_app_data E ctx)"
    unfolding action_clear_app_data_def Let_def require_serial_def
    using assms by (intro appends_rules) simp_all
  then show "children (snd (action_clear_app_data E ctx w)) = children w" by (rule appends_children)
  have "appends (\<lambda>e. \<not> is_child e) (action_open_url E ctx)"
    unfolding action_open_url_def Let_def require_serial_def
    using assms by (intro appends_rules) simp_all
  then show "children (snd (action_open_url E ctx w)) = children w" by (rule appends_children)
  have "appends (\<lambda>e. \<not> is_child e) (action_screenshot E ctx)"
    unfolding action_screenshot_def Let_def require_serial_def
    using assms by (intro appends_rules) simp_all
  then show "children (snd (action_screenshot E ctx w)) = children w" by (rule appends_children)
  have "appends (\<lambda>e. \<not> is_child e) (action_screenrecord E ctx)"
    unfolding action_screenrecord_def Let_def require_serial_def
    using assms by (intro appends_rules) simp_all
  then show "children (snd (action_screenrecord E ctx w)) = children w" by (rule appends_children)
  have f: "\<And>cmd. appends (\<lambda>e. \<not> is_child e) (fastboot_show E ctx cmd)"
    unfolding fastboot_show_def Let_def
    using assms by (intro appends_rules) simp_all
  then show "children (snd (action_fastboot_getvar_all E ctx w)) = children w"
    unfolding action_fastboot_getvar_all_def by (intro appends_children)
  have "appends (\<lambda>e. \<not> is_child e) (action_fastboot_reboot_menu E ctx)"
    unfolding action_fastboot_reboot_menu_def Let_def
    by (intro appends_rules f) simp_all
  then show "children (snd (action_fastboot_reboot_menu E ctx w)) = children w" by (rule appends_children)
qed

text \<open>
  C1. A session bound to \<open>ABC123\<close> with the dry-run flag set; the operator opens the logcat
  lab and picks the 200-line dump (\<open>l1\<close> in \<open>android_workbench_ai.py\<close>, \<open>1\<close> in
  \<open>android-workbench-v1.2.py\<close>). The claim asks for no child process; both variants run
  \<open>adb -s ABC123 logcat -b all -d -t 200 -v time\<close>, because each branch calls \<open>run\<close> before
  the dry-run gate that follows the \<open>if\<close>/\<open>elif\<close> chain.
\<close>

theorem logcat_lab_dry_run_executes:
  "children (snd (action_logcat_lab (sample_env 0 0) (bound_ctx True) (typed [''l1'', ''''])))
     = [Ran [''adb'', ''-s'', ''ABC123'', ''logcat'', ''-b'', ''all'', ''-d'', ''-t'', ''200'', ''-v'', ''time'']]
   \<and> children (snd (action_logcat_lab_v12 (sample_env 0 0) (bound_ctx True) (typed [''1'', ''''])))
     = [Ran [''adb'', ''-s'', ''ABC123'', ''logcat'', ''-b'', ''all'', ''-d'', ''-t'', ''200'', ''-v'', ''time'']]"
  by (simp add: action_logcat_lab_def action_logcat_lab_v12_def logcat_finish_def bound_ctx_facts lower_l1
      typed_def io_defs run_ok query_ok_def sample_env_def children_def)

section \<open>Blank answers to free-text prompts\<close>

lemma install_blank:
  assumes "has_serial ctx" and "str_strip raw = []" and "stdin w = raw # rest"
  shows "action_install_apk E ctx w =
           (Inr (), w\<lparr>stdin := rest, trace := trace w @ [Asked ''Path to APK (e.g. ~/Downloads/app.apk): '']\<rparr>)"
  using assms by (simp add: action_install_apk_def require_serial_def io_defs)

lemma clear_blank:
  assumes "has_serial ctx" and "str_strip raw = []" and "stdin w = raw # rest"
  shows "action_clear_app_data E ctx w =
           (Inr (), w\<lparr>stdin := rest, trace := trace w @ [Asked ''Package to clear (e.g. com.example.app): '']\<rparr>)"
  using assms by (simp add: action_clear_app_data_def require_serial_def io_defs)

lemma url_blank:
  assumes "has_serial ctx" and "str_strip raw = []" and "stdin w = raw # rest"
  shows "action_open_url E ctx w =
           (Inr (), w\<lparr>stdin := rest, trace := trace w @ [Asked ''URL (https://...): '']\<rparr>)"
  using assms by (simp add: action_open_url_def require_serial_def io_defs)

lemma tag_blank:
  assumes "has_serial ctx" and "str_strip raw = []" and "stdin w = pick # raw # rest"
    and "str_lower (str_strip pick) = ''l5''"
  shows "action_logcat_lab E ctx w =
           (Inr (), w\<lparr>stdin := rest,
                       trace := trace w @ [Printed [], Printed (box logcat_menu_lines (NEON_PINK @ ''LOGCAT LAB'' @ RESET)),
                                           Asked (NEON_PINK @ ''> '' @ RESET),
                                           Asked ''Tag (e.g. ActivityManager): '']\<rparr>)"
  using assms by (simp add: action_logcat_lab_def io_defs)

lemma regex_blank:
  assumes "has_serial ctx" and "str_strip raw = []" and "stdin w = pick # raw # rest"
    and "str_lower (str_strip pick) = ''l6''"
  shows "action_logcat_lab E ctx w =
           (Inr (), w\<lparr>stdin := rest,
                       trace := trace w @ [Printed [], Printed (box logcat_menu_lines (NEON_PINK @ ''LOGCAT LAB'' @ RESET)),
                                           Asked (NEON_PINK @ ''> '' @ RESET),
                                           Asked ''Regex: '']\<rparr>)"
  using assms by (simp add: action_logcat_lab_def io_defs)

text \<open>
  C10. In a session with a bound device, a blank answer (empty once stripped) to the tag
  prompt, the regex prompt, the APK-path prompt, the package prompt or the URL prompt makes
  the handler return at once: normally, with nothing further read from the operator, no
  child process started and no file written.
\<close>

theorem blank_free_text_returns:
  assumes "has_serial ctx" and "str_strip raw = []"
  shows "(stdin w = pick # raw # rest \<and> str_lower (str_strip pick) = ''l5''
            \<longrightarrow> returns_untouched w rest (action_logcat_lab E ctx w))
       \<and> (stdin w = pick # raw # rest \<and> str_lower (str_strip pick) = ''l6''
            \<longrightarrow> returns_untouched w rest (action_logcat_lab E ctx w))
       \<and> (stdin w = raw # rest \<longrightarrow> returns_untouched w rest (action_install_apk E ctx w))
       \<and> (stdin w = raw # rest \<longrightarrow> returns_untouched w rest (action_clear_app_data E ctx w))
       \<and> (stdin w = raw # rest \<longrightarrow> returns_untouched w rest (action_open_url E ctx w))"
  using tag_blank [OF assms, of w pick rest E] regex_blank [OF assms, of w pick rest E]
    install_blank [OF assms, of w rest E] clear_blank [OF assms, of w rest E]
    url_blank [OF assms, of w rest E]
  by (simp add: returns_untouched_def children_def writes_def)

theorem blank_free_text_returns_witness:
  "has_serial (bound_ctx False) \<and> str_strip ''  '' = []
   \<and> stdin (typed [''L5'', ''  '', ''q'']) = ''L5'' # ''  '' # [''q''] \<and> str_lower (str_strip ''L5'') = ''l5''
   \<and> returns_untouched (typed [''L5'', ''  '', ''q'']) [''q'']
         (action_logcat_lab (sample_env 0 0) (bound_ctx False) (typed [''L5'', ''  '', ''q'']))
   \<and> stdin (typed [''l6'', ''  '', ''q'']) = ''l6'' # ''  '' # [''q''] \<and> str_lower (str_strip ''l6'') = ''l6''
   \<and> returns_untouched (typed [''l6'', ''  '', ''q'']) [''q'']
         (action_logcat_lab (sample_env 0 0) (bound_ctx False) (typed [''l6'', ''  '', ''q'']))
   \<and> stdin (typed [''  '', ''q'']) = ''  '' # [''q'']
   \<and> returns_untouched (typed [''  '', ''q'']) [''q'']
         (action_install_apk (sample_env 0 0) (bound_ctx False) (typed [''  '', ''q'']))
   \<and> returns_untouched (typed [''  '', ''q'']) [''q'']
         (action_clear_app_data (sample_env 0 0) (bound_ctx False) (typed [''  '', ''q'']))
   \<and> returns_untouched (typed [''  '', ''q'']) [''q'']
         (action_open_url (sample_env 0 0) (bound_ctx False) (typed [''  '', ''q'']))"
proof -
  have a: "has_serial (bound_ctx False)" by (rule bound_ctx_facts)
  have b: "str_strip ''  '' = []" by (simp add: str_strip_def py_isspace_def)
  have c: "str_lower (str_strip ''L5'') = ''l5''" "str_lower (str_strip ''l6'') = ''l6''"
    by (simp_all add: str_lower_def str_strip_def py_isspace_def lower_table_def)
  from blank_free_text_returns [OF a b, of "typed [''L5'', ''  '', ''q'']" "''L5''" "[''q'']" "sample_env 0 0"]
    blank_free_text_returns [OF a b, of "typed [''l6'', ''  '', ''q'']" "''l6''" "[''q'']" "sample_env 0 0"]
    blank_free_text_returns [OF a b, of "typed [''  '', ''q'']" "''x''" "[''q'']" "sample_env 0 0"]
  show ?thesis using a b c by (simp add: typed_def)
qed

section \<open>Invalid regular expression in the log filter\<close>







section \<open>Property report\<close>

lemma run_fail:
  assumes "\<not> query_ok E cmd limit"
  shows "run E cmd True limit w =
           (Inl (if limit < seconds (child E cmd) then TimeoutExpired cmd
                 else CalledProcessError (returncode (child E cmd)) cmd (stdout (child E cmd)) (stderr (child E cmd))),
            w\<lparr>trace := trace w @ [Ran cmd]\<rparr>)"
  using assms by (simp add: run_def run_capture_def io_bind_def io_ret_def query_ok_def Let_def)





lemma writes_simps [simp]:
  "writes (w\<lparr>trace := trace w @ [Ran c]\<rparr>) = writes w"
  "writes (w\<lparr>trace := trace w @ [Printed s]\<rparr>) = writes w"
  "writes (w\<lparr>trace := trace w @ [MadeDir d]\<rparr>) = writes w"
  by (simp_all add: writes_def)
















section \<open>Main menu loop\<close>

lemma print_failure_result:
  "\<exists>es. print_failure cmd out err w = (Inr (), w\<lparr>trace := trace w @ map Printed es\<rparr>)"
proof -
  let ?a = "NEON_RED @ ''Command failed:'' @ RESET"
  let ?b = "str_join '' '' cmd"
  let ?c = "if out \<noteq> [] then [newline @ ''stdout:'' @ newline @ out] else []"
  let ?d = "if err \<noteq> [] then [newline @ ''stderr:'' @ newline @ err] else []"
  have "print_failure cmd out err w = (Inr (), w\<lparr>trace := trace w @ map Printed ([?a, ?b] @ ?c @ ?d)\<rparr>)"
    by (simp add: print_failure_def io_defs)
  then show ?thesis by blast
qed

lemma io_try_v12_caught:
  assumes "m w = (Inl e, w1)" and "is_child_failure e"
  shows "\<exists>es. io_try m menu_except_v12 w = (Inr (), w1\<lparr>trace := trace w1 @ map Printed es\<rparr>) \<and> es \<noteq> []"
proof (cases e)
  case (CalledProcessError rc cmd out err)
  have "\<exists>es. print_failure cmd out err w1 = (Inr (), w1\<lparr>trace := trace w1 @ map Printed es\<rparr>) \<and> es \<noteq> []"
    by (rule exI [of _ "[NEON_RED @ ''Command failed:'' @ RESET, str_join '' '' cmd]
                        @ (if out \<noteq> [] then [newline @ ''stdout:'' @ newline @ out] else [])
                        @ (if err \<noteq> [] then [newline @ ''stderr:'' @ newline @ err] else [])"])
       (simp add: print_failure_def io_defs)
  with assms(1) CalledProcessError show ?thesis by (simp add: io_try_def menu_except_v12_def)
next
  case (TimeoutExpired cmd)
  have "io_try m menu_except_v12 w =
          (Inr (), w1\<lparr>trace := trace w1 @ map Printed [NEON_RED @ ''Command timed out.'' @ RESET]\<rparr>)"
    using assms(1) TimeoutExpired by (simp add: io_try_def menu_except_v12_def io_defs)
  then show ?thesis by blast
next
  case EOFError
  with assms(2) show ?thesis by simp
next
  case (ValueError s)
  with assms(2) show ?thesis by simp
qed

lemma io_try_v12_errors:
  assumes "io_try m menu_except_v12 w = (Inl e, w2)"
  shows "\<not> is_child_failure e"
proof
  assume f: "is_child_failure e"
  obtain r w1 where m: "m w = (r, w1)" by (cases "m w")
  show False
  proof (cases r)
    case (Inr x)
    with m assms show False by (simp add: io_try_def)
  next
    case (Inl e')
    show False
    proof (cases "is_child_failure e'")
      case True
      from io_try_v12_caught [of m w e' w1, OF m [unfolded Inl] True] assms show False by auto
    next
      case False
      with m Inl assms f show False
        by (cases e') (simp_all add: io_try_def menu_except_v12_def)
    qed
  qed
qed

lemma menu_body_v12_errors:
  assumes "fst (menu_body_v12 E ctx w) = Inl e"
  shows "\<not> is_child_failure e"
  using assms
  by (auto simp: menu_body_v12_def clear_def io_defs Let_def dest: io_try_v12_errors
      split: list.splits if_splits prod.splits sum.splits)

lemma menu_body_v12_ctx:
  assumes "fst (menu_body_v12 E ctx w) = Inr (c, running)"
  shows "(c = ctx \<or> c = ctx\<lparr>dry_run := \<not> dry_run ctx\<rparr>)
       \<and> (c \<noteq> ctx \<longrightarrow> (\<exists>raw rest. stdin w = raw # rest \<and> str_lower (str_strip raw) = ''d''))"
  using assms
  by (auto simp: menu_body_v12_def clear_def io_defs Let_def
      split: list.splits if_splits prod.splits sum.splits)


lemma io_try_caught:
  assumes "m w = (Inl e, w1)" and "is_child_failure e"
  shows "\<exists>es. io_try m menu_except w = (Inr False, w1\<lparr>trace := trace w1 @ map Printed es\<rparr>) \<and> es \<noteq> []"
proof (cases e)
  case (CalledProcessError rc cmd out err)
  have "\<exists>es. print_failure cmd out err w1 = (Inr (), w1\<lparr>trace := trace w1 @ map Printed es\<rparr>) \<and> es \<noteq> []"
    by (rule exI [of _ "[NEON_RED @ ''Command failed:'' @ RESET, str_join '' '' cmd]
                        @ (if out \<noteq> [] then [newline @ ''stdout:'' @ newline @ out] else [])
                        @ (if err \<noteq> [] then [newline @ ''stderr:'' @ newline @ err] else [])"])
       (simp add: print_failure_def io_defs)
  with assms(1) CalledProcessError show ?thesis
    by (auto simp: io_try_def menu_except_def io_seq_def io_bind_def io_ret_def)
next
  case (TimeoutExpired cmd)
  have "io_try m menu_except w =
          (Inr False, w1\<lparr>trace := trace w1 @ map Printed [NEON_RED @ ''Command timed out.'' @ RESET]\<rparr>)"
    using assms(1) TimeoutExpired by (simp add: io_try_def menu_except_def io_defs)
  then show ?thesis by blast
next
  case EOFError
  with assms(2) show ?thesis by simp
next
  case (ValueError s)
  with assms(2) show ?thesis by simp
qed

lemma io_try_errors:
  assumes "io_try m menu_except w = (Inl e, w2)"
  shows "\<not> is_child_failure e"
proof
  assume f: "is_child_failure e"
  obtain r w1 where m: "m w = (r, w1)" by (cases "m w")
  show False
  proof (cases r)
    case (Inr x)
    with m assms show False by (simp add: io_try_def)
  next
    case (Inl e')
    show False
    proof (cases "is_child_failure e'")
      case True
      from io_try_caught [of m w e' w1, OF m [unfolded Inl] True] assms show False by auto
    next
      case False
      with m Inl assms f show False
        by (cases e') (simp_all add: io_try_def menu_except_def)
    qed
  qed
qed

lemma menu_body_errors:
  assumes "fst (menu_body E ctx w) = Inl e"
  shows "\<not> is_child_failure e"
  using assms
  by (auto simp: menu_body_def clear_def io_defs Let_def dest: io_try_errors
      split: list.splits if_splits prod.splits sum.splits)

lemma menu_body_ctx:
  assumes "fst (menu_body E ctx w) = Inr (c, running)"
  shows "(c = ctx \<or> c = ctx\<lparr>dry_run := \<not> dry_run ctx\<rparr>)
       \<and> (c \<noteq> ctx \<longrightarrow> (\<exists>raw rest. stdin w = raw # rest \<and> str_lower (str_strip raw) = ''d''))"
  using assms
  by (auto simp: menu_body_def clear_def io_defs Let_def
      split: list.splits if_splits prod.splits sum.splits)

lemma menu_body_v01_ctx:
  assumes "fst (menu_body_v01 E ctx w) = Inr (c, running)"
  shows "(c = ctx \<or> c = ctx\<lparr>dry_run := \<not> dry_run ctx\<rparr>)
       \<and> (c \<noteq> ctx \<longrightarrow> (\<exists>raw rest. stdin w = raw # rest \<and> str_lower (str_strip raw) = ''d''))"
  using assms
  by (auto simp: menu_body_v01_def clear_def io_defs Let_def
      split: list.splits if_splits prod.splits sum.splits)

lemma menu_iterate_ctx:
  assumes "fst (menu_iterate n E ctx w) = Inr (c, running)"
  shows "serial c = serial ctx \<and> verbose c = verbose ctx"
  using assms
proof (induction n arbitrary: ctx w)
  case 0
  then show ?case by (simp add: io_ret_def)
next
  case (Suc n)
  obtain r w1 where b: "menu_body E ctx w = (r, w1)" by (cases "menu_body E ctx w")
  show ?case
  proof (cases r)
    case (Inl e)
    with b Suc.prems show ?thesis by (simp add: io_bind_def)
  next
    case (Inr p)
    obtain c1 run1 where p: "p = (c1, run1)" by (cases p)
    from b Inr p have "fst (menu_body E ctx w) = Inr (c1, run1)" by simp
    then have s: "serial c1 = serial ctx \<and> verbose c1 = verbose ctx"
      by (auto dest!: menu_body_ctx)
    show ?thesis
    proof (cases run1)
      case True
      with b Inr p Suc.prems have "fst (menu_iterate n E c1 w1) = Inr (c, running)"
        by (simp add: io_bind_def)
      from Suc.IH [OF this] s show ?thesis by simp
    next
      case False
      with b Inr p Suc.prems s show ?thesis by (simp add: io_bind_def io_ret_def)
    qed
  qed
qed


lemma menu_iterate_v12_ctx:
  assumes "fst (menu_iterate_v12 n E ctx w) = Inr (c, running)"
  shows "serial c = serial ctx \<and> verbose c = verbose ctx"
  using assms
proof (induction n arbitrary: ctx w)
  case 0
  then show ?case by (simp add: io_ret_def)
next
  case (Suc n)
  obtain r w1 where b: "menu_body_v12 E ctx w = (r, w1)" by (cases "menu_body_v12 E ctx w")
  show ?case
  proof (cases r)
    case (Inl e)
    with b Suc.prems show ?thesis by (simp add: io_bind_def)
  next
    case (Inr p)
    obtain c1 run1 where p: "p = (c1, run1)" by (cases p)
    from b Inr p have "fst (menu_body_v12 E ctx w) = Inr (c1, run1)" by simp
    then have s: "serial c1 = serial ctx \<and> verbose c1 = verbose ctx"
      by (auto dest!: menu_body_v12_ctx)
    show ?thesis
    proof (cases run1)
      case True
      with b Inr p Suc.prems have "fst (menu_iterate_v12 n E c1 w1) = Inr (c, running)"
        by (simp add: io_bind_def)
      from Suc.IH [OF this] s show ?thesis by simp
    next
      case False
      with b Inr p Suc.prems s show ?thesis by (simp add: io_bind_def io_ret_def)
    qed
  qed
qed

lemma menu_iterate_v01_ctx:
  assumes "fst (menu_iterate_v01 n E ctx w) = Inr (c, running)"
  shows "serial c = serial ctx \<and> verbose c = verbose ctx"
  using assms
proof (induction n arbitrary: ctx w)
  case 0
  then show ?case by (simp add: io_ret_def)
next
  case (Suc n)
  obtain r w1 where b: "menu_body_v01 E ctx w = (r, w1)" by (cases "menu_body_v01 E ctx w")
  show ?case
  proof (cases r)
    case (Inl e)
    with b Suc.prems show ?thesis by (simp add: io_bind_def)
  next
    case (Inr p)
    obtain c1 run1 where p: "p = (c1, run1)" by (cases p)
    from b Inr p have "fst (menu_body_v01 E ctx w) = Inr (c1, run1)" by simp
    then have s: "serial c1 = serial ctx \<and> verbose c1 = verbose ctx"
      by (auto dest!: menu_body_v01_ctx)
    show ?thesis
    proof (cases run1)
      case True
      with b Inr p Suc.prems have "fst (menu_iterate_v01 n E c1 w1) = Inr (c, running)"
        by (simp add: io_bind_def)
      from Suc.IH [OF this] s show ?thesis by simp
    next
      case False
      with b Inr p Suc.prems s show ?thesis by (simp add: io_bind_def io_ret_def)
    qed
  qed
qed

lemma menu_iterate_errors:
  assumes "fst (menu_iterate n E ctx w) = Inl e"
  shows "\<not> is_child_failure e"
  using assms
proof (induction n arbitrary: ctx w)
  case 0
  then show ?case by (simp add: io_ret_def)
next
  case (Suc n)
  obtain r w1 where b: "menu_body E ctx w = (r, w1)" by (cases "menu_body E ctx w")
  show ?case
  proof (cases r)
    case (Inl e')
    with b Suc.prems have "fst (menu_body E ctx w) = Inl e" by (simp add: io_bind_def)
    then show ?thesis by (rule menu_body_errors)
  next
    case (Inr p)
    obtain c1 run1 where p: "p = (c1, run1)" by (cases p)
    show ?thesis
    proof (cases run1)
      case True
      with b Inr p Suc.prems have "fst (menu_iterate n E c1 w1) = Inl e"
        by (simp add: io_bind_def)
      then show ?thesis by (rule Suc.IH)
    next
      case False
      with b Inr p Suc.prems show ?thesis by (simp add: io_bind_def io_ret_def)
    qed
  qed
qed

lemma menu_iterate_v12_errors:
  assumes "fst (menu_iterate_v12 n E ctx w) = Inl e"
  shows "\<not> is_child_failure e"
  using assms
proof (induction n arbitrary: ctx w)
  case 0
  then show ?case by (simp add: io_ret_def)
next
  case (Suc n)
  obtain r w1 where b: "menu_body_v12 E ctx w = (r, w1)" by (cases "menu_body_v12 E ctx w")
  show ?case
  proof (cases r)
    case (Inl e')
    with b Suc.prems have "fst (menu_body_v12 E ctx w) = Inl e" by (simp add: io_bind_def)
    then show ?thesis by (rule menu_body_v12_errors)
  next
    case (Inr p)
    obtain c1 run1 where p: "p = (c1, run1)" by (cases p)
    show ?thesis
    proof (cases run1)
      case True
      with b Inr p Suc.prems have "fst (menu_iterate_v12 n E c1 w1) = Inl e"
        by (simp add: io_bind_def)
      then show ?thesis by (rule Suc.IH)
    next
      case False
      with b Inr p Suc.prems show ?thesis by (simp add: io_bind_def io_ret_def)
    qed
  qed
qed

lemma sample_choice:
  "str_lower (str_strip ''d'') = ''d''" "str_lower (str_strip ''q'') = ''q''"
  "str_lower (str_strip ''1'') = ''1''" "str_lower (str_strip []) = []"
  by (simp_all add: str_lower_def str_strip_def py_isspace_def lower_table_def)

lemma toggle_then_quit:
  "fst (menu_iterate (Suc (Suc 0)) (sample_env 0 0) (bound_ctx False) (typed [''d'', ''q''])) = Inr (bound_ctx True, False)"
  "fst (menu_iterate_v12 (Suc (Suc 0)) (sample_env 0 0) (bound_ctx False) (typed [''d'', ''q''])) = Inr (bound_ctx True, False)"
  "fst (menu_iterate_v01 (Suc (Suc 0)) (sample_env 0 0) (bound_ctx False) (typed [''d'', ''q''])) = Inr (bound_ctx True, False)"
  "fst (menu_body (sample_env 0 0) (bound_ctx False) (typed [''d'', ''q''])) = Inr (bound_ctx True, True)"
  "fst (menu_body_v12 (sample_env 0 0) (bound_ctx False) (typed [''d'', ''q''])) = Inr (bound_ctx True, True)"
  "fst (menu_body_v01 (sample_env 0 0) (bound_ctx False) (typed [''d'', ''q''])) = Inr (bound_ctx True, True)"
  by (simp_all add: menu_body_def menu_body_v12_def menu_body_v01_def clear_def io_defs Let_def
      typed_def sample_choice bound_ctx_def)

text \<open>
  C3. In \<open>android_workbench.py\<close> the loop has no \<open>try\<close>: with the operator choosing the
  status action, a device-list command that exceeds its 10-second limit, or one that
  exits with status 1, ends the whole menu in the exception. The claim asks for the
  error to be printed and the loop to go on, which is what the other two variants do
  (\<open>menu_body_errors\<close>, \<open>menu_body_v12_errors\<close>, \<open>menu_recovers_from_timeout\<close>).
\<close>

theorem menu_v01_child_failure_is_fatal:
  "fst (menu_iterate_v01 (Suc (Suc 0)) (sample_env 0 11) (bound_ctx False) (typed [''1'', '''', ''q'']))
     = Inl (TimeoutExpired [''adb'', ''devices'', ''-l''])
   \<and> fst (menu_iterate_v01 (Suc (Suc 0)) (sample_env 1 0) (bound_ctx False) (typed [''1'', '''', ''q'']))
     = Inl (CalledProcessError 1 [''adb'', ''devices'', ''-l''] two_devices [])"
  by (simp add: menu_body_v01_def clear_def io_defs Let_def typed_def sample_choice
      action_status_def run_fail query_ok_def sample_env_def)

lemma menu_recovers_from_timeout:
  "fst (menu_iterate (Suc (Suc 0)) (sample_env 0 11) (bound_ctx False) (typed [''1'', '''', ''q'']))
     = Inr (bound_ctx False, False)"
  "fst (menu_iterate_v12 (Suc (Suc 0)) (sample_env 0 11) (bound_ctx False) (typed [''1'', '''', ''q'']))
     = Inr (bound_ctx False, False)"
  "children (snd (menu_iterate_v12 (Suc (Suc 0)) (sample_env 0 11) (bound_ctx False) (typed [''1'', '''', ''q''])))
     = [Ran [''adb'', ''devices'', ''-l'']]"
  by (simp_all add: menu_body_def menu_body_v12_def menu_dispatch_def menu_dispatch_v12_def clear_def
      io_defs io_try_def menu_except_def menu_except_v12_def Let_def typed_def sample_choice
      action_status_def run_fail query_ok_def sample_env_def children_def)


lemma menu_startup:
  assumes "fst (menu n E arg w) = Inr (c, running)"
  shows "verbose c \<and> (\<forall>s. arg = Some s \<and> s \<noteq> [] \<longrightarrow> serial c = Some s)"
proof -
  obtain r w1 where st: "menu_start E arg w = (r, w1)" by (cases "menu_start E arg w")
  show ?thesis
  proof (cases r)
    case (Inl e)
    with st assms show ?thesis by (simp add: menu_def io_bind_def)
  next
    case (Inr ctx0)
    with st assms have "fst (menu_iterate n E ctx0 w1) = Inr (c, running)"
      by (simp add: menu_def io_bind_def)
    then have k: "serial c = serial ctx0 \<and> verbose c = verbose ctx0" by (rule menu_iterate_ctx)
    from st Inr have "verbose ctx0 \<and> (\<forall>s. arg = Some s \<and> s \<noteq> [] \<longrightarrow> serial ctx0 = Some s)"
      by (auto simp: menu_start_def io_bind_def io_ret_def split: option.splits if_splits prod.splits sum.splits)
    with k show ?thesis by simp
  qed
qed

lemma menu_v12_startup:
  assumes "fst (menu_v12 n E arg w) = Inr (c, running)"
  shows "verbose c \<and> (\<forall>s. arg = Some s \<and> s \<noteq> [] \<longrightarrow> serial c = Some s)"
proof -
  obtain r w1 where st: "menu_start E arg w = (r, w1)" by (cases "menu_start E arg w")
  show ?thesis
  proof (cases r)
    case (Inl e)
    with st assms show ?thesis by (simp add: menu_v12_def io_bind_def)
  next
    case (Inr ctx0)
    with st assms have "fst (menu_iterate_v12 n E ctx0 w1) = Inr (c, running)"
      by (simp add: menu_v12_def io_bind_def)
    then have k: "serial c = serial ctx0 \<and> verbose c = verbose ctx0" by (rule menu_iterate_v12_ctx)
    from st Inr have "verbose ctx0 \<and> (\<forall>s. arg = Some s \<and> s \<noteq> [] \<longrightarrow> serial ctx0 = Some s)"
      by (auto simp: menu_start_def io_bind_def io_ret_def split: option.splits if_splits prod.splits sum.splits)
    with k show ?thesis by simp
  qed
qed

lemma menu_v01_startup:
  assumes "fst (menu_v01 n E arg w) = Inr (c, running)"
  shows "verbose c \<and> (\<forall>s. arg = Some s \<and> s \<noteq> [] \<longrightarrow> serial c = Some s)"
proof -
  obtain r w1 where st: "menu_start E arg w = (r, w1)" by (cases "menu_start E arg w")
  show ?thesis
  proof (cases r)
    case (Inl e)
    with st assms show ?thesis by (simp add: menu_v01_def io_bind_def)
  next
    case (Inr ctx0)
    with st assms have "fst (menu_iterate_v01 n E ctx0 w1) = Inr (c, running)"
      by (simp add: menu_v01_def io_bind_def)
    then have k: "serial c = serial ctx0 \<and> verbose c = verbose ctx0" by (rule menu_iterate_v01_ctx)
    from st Inr have "verbose ctx0 \<and> (\<forall>s. arg = Some s \<and> s \<noteq> [] \<longrightarrow> serial ctx0 = Some s)"
      by (auto simp: menu_start_def io_bind_def io_ret_def split: option.splits if_splits prod.splits sum.splits)
    with k show ?thesis by simp
  qed
qed

text \<open>
  C9. In all three variants: an iteration of the menu loop leaves the session context as
  it was, or with only the dry-run flag inverted, and the latter only when the operator
  chose \<open>d\<close>; after any number of iterations the selected device identifier and the
  verbosity flag are those the loop started with; and the loop starts with the verbosity
  flag set and, when a device identifier was given on the command line, with that
  identifier.
\<close>

theorem menu_changes_only_dry_run:
  "(fst (menu_body E ctx w) = Inr (c, running) \<longrightarrow>
      (c = ctx \<or> c = ctx\<lparr>dry_run := \<not> dry_run ctx\<rparr>)
      \<and> (c \<noteq> ctx \<longrightarrow> (\<exists>raw rest. stdin w = raw # rest \<and> str_lower (str_strip raw) = ''d'')))
   \<and> (fst (menu_iterate n E ctx w) = Inr (c, running) \<longrightarrow>
      serial c = serial ctx \<and> verbose c = verbose ctx)
   \<and> (fst (menu n E arg w) = Inr (c, running) \<longrightarrow>
      verbose c \<and> (\<forall>s. arg = Some s \<and> s \<noteq> [] \<longrightarrow> serial c = Some s))
   \<and> (fst (menu_body_v12 E ctx w) = Inr (c, running) \<longrightarrow>
      (c = ctx \<or> c = ctx\<lparr>dry_run := \<not> dry_run ctx\<rparr>)
      \<and> (c \<noteq> ctx \<longrightarrow> (\<exists>raw rest. stdin w = raw # rest \<and> str_lower (str_strip raw) = ''d'')))
   \<and> (fst (menu_iterate_v12 n E ctx w) = Inr (c, running) \<longrightarrow>
      serial c = serial ctx \<and> verbose c = verbose ctx)
   \<and> (fst (menu_v12 n E arg w) = Inr (c, running) \<longrightarrow>
      verbose c \<and> (\<forall>s. arg = Some s \<and> s \<noteq> [] \<longrightarrow> serial c = Some s))
   \<and> (fst (menu_body_v01 E ctx w) = Inr (c, running) \<longrightarrow>
      (c = ctx \<or> c = ctx\<lparr>dry_run := \<not> dry_run ctx\<rparr>)
      \<and> (c \<noteq> ctx \<longrightarrow> (\<exists>raw rest. stdin w = raw # rest \<and> str_lower (str_strip raw) = ''d'')))
   \<and> (fst (menu_iterate_v01 n E ctx w) = Inr (c, running) \<longrightarrow>
      serial c = serial ctx \<and> verbose c = verbose ctx)
   \<and> (fst (menu_v01 n E arg w) = Inr (c, running) \<longrightarrow>
      verbose c \<and> (\<forall>s. arg = Some s \<and> s \<noteq> [] \<longrightarrow> serial c = Some s))"
  using menu_body_ctx [of E ctx w c running] menu_iterate_ctx [of n E ctx w c running]
    menu_startup [of n E arg w c running]
    menu_body_v12_ctx [of E ctx w c running] menu_iterate_v12_ctx [of n E ctx w c running]
    menu_v12_startup [of n E arg w c running]
    menu_body_v01_ctx [of E ctx w c running] menu_iterate_v01_ctx [of n E ctx w c running]
    menu_v01_startup [of n E arg w c running]
  by blast

lemma started_then_quit:
  "fst (menu (Suc (Suc 0)) (sample_env 0 0) (Some ''ABC123'') (typed [''d'', ''q''])) = Inr (bound_ctx True, False)"
  "fst (menu_v12 (Suc (Suc 0)) (sample_env 0 0) (Some ''ABC123'') (typed [''d'', ''q''])) = Inr (bound_ctx True, False)"
  "fst (menu_v01 (Suc (Suc 0)) (sample_env 0 0) (Some ''ABC123'') (typed [''d'', ''q''])) = Inr (bound_ctx True, False)"
  by (simp_all add: menu_def menu_v12_def menu_v01_def menu_start_def
      menu_body_def menu_body_v12_def menu_body_v01_def clear_def io_defs Let_def
      typed_def sample_choice bound_ctx_def)

theorem menu_changes_only_dry_run_witness:
  "fst (menu_body (sample_env 0 0) (bound_ctx False) (typed [''d'', ''q''])) = Inr (bound_ctx True, True)
   \<and> fst (menu_iterate (Suc (Suc 0)) (sample_env 0 0) (bound_ctx False) (typed [''d'', ''q'']))
       = Inr (bound_ctx True, False)
   \<and> fst (menu (Suc (Suc 0)) (sample_env 0 0) (Some ''ABC123'') (typed [''d'', ''q'']))
       = Inr (bound_ctx True, False)
   \<and> fst (menu_body_v12 (sample_env 0 0) (bound_ctx False) (typed [''d'', ''q''])) = Inr (bound_ctx True, True)
   \<and> fst (menu_iterate_v12 (Suc (Suc 0)) (sample_env 0 0) (bound_ctx False) (typed [''d'', ''q'']))
       = Inr (bound_ctx True, False)
   \<and> fst (menu_v12 (Suc (Suc 0)) (sample_env 0 0) (Some ''ABC123'') (typed [''d'', ''q'']))
       = Inr (bound_ctx True, False)
   \<and> fst (menu_body_v01 (sample_env 0 0) (bound_ctx False) (typed [''d'', ''q''])) = Inr (bound_ctx True, True)
   \<and> fst (menu_iterate_v01 (Suc (Suc 0)) (sample_env 0 0) (bound_ctx False) (typed [''d'', ''q'']))
       = Inr (bound_ctx True, False)
   \<and> fst (menu_v01 (Suc (Suc 0)) (sample_env 0 0) (Some ''ABC123'') (typed [''d'', ''q'']))
       = Inr (bound_ctx True, False)
   \<and> bound_ctx True \<noteq> bound_ctx False
   \<and> bound_ctx True = (bound_ctx False)\<lparr>dry_run := \<not> dry_run (bound_ctx False)\<rparr>
   \<and> stdin (typed [''d'', ''q'']) = ''d'' # [''q''] \<and> str_lower (str_strip ''d'') = ''d''
   \<and> serial (bound_ctx True) = serial (bound_ctx False)
   \<and> verbose (bound_ctx True) = verbose (bound_ctx False)
   \<and> verbose (bound_ctx True) \<and> serial (bound_ctx True) = Some ''ABC123''"
  using menu_changes_only_dry_run [of "sample_env 0 0" "bound_ctx False" "typed [''d'', ''q'']" "bound_ctx True" True
      "Suc (Suc 0)" "Some ''ABC123''"]
    menu_changes_only_dry_run [of "sample_env 0 0" "bound_ctx False" "typed [''d'', ''q'']" "bound_ctx True" False
      "Suc (Suc 0)" "Some ''ABC123''"]
    toggle_then_quit started_then_quit sample_choice(1)
  by (simp add: bound_ctx_def typed_def)

end
